theory Spec2Isabelle
  imports Main
begin

section \<open>ecdsa/keygen/prepare.go: the orchestrator GeneratePreParams\<close>

text \<open>
  The file prepare.go holds one function, \<open>GeneratePreParams\<close>. It resolves a concurrency
  value from a variadic argument, launches two goroutines (Paillier key generation and the
  search for two safe primes), receives both results, derives the commitment parameters
  from the two safe primes and returns a \<open>LocalPreParams\<close> record or an error.

  The functions it calls (\<open>paillier.GenerateKeyPair\<close>,
  \<open>common.GetRandomGermainPrimesConcurrent\<close>, \<open>crypto.GenerateNTildei\<close>,
  \<open>runtime.NumCPU\<close>) and the two constants \<open>PaillierModulusLen\<close> and
  \<open>SafePrimeBitLen\<close> are declared outside prepare.go; they are parameters of the model,
  collected in the record \<open>env\<close>. One \<open>env\<close> fixes what each of them delivers in one run,
  so a statement for all \<open>env\<close> covers every behaviour of the randomised collaborators.
\<close>

subsection \<open>Data\<close>

text \<open>A Go \<open>error\<close> value as built by \<open>errors.New\<close>; the nil error is \<open>None\<close> of
  \<open>error option\<close>.\<close>

datatype error = Error string

text \<open>
  What can bring the process down: the explicit \<open>panic(errors.New(...))\<close> of line 27, the
  run-time panics of line 57 (an index beyond the slice, a method called through a nil
  pointer), and a panic inside a called function or goroutine, which is not recovered
  anywhere in prepare.go.
\<close>

datatype panic =
    PanicError error
  | IndexOutOfRange nat nat
  | NilPointerDereference
  | CalleePanic

text \<open>
  What a call into code outside prepare.go can do: deliver its return values, panic, or
  never come back.
\<close>

datatype 'a call = Done 'a | Crash | Hang

text \<open>
  Modelled from the spec: the type \<open>common.GermainPrime\<close> and its method \<open>SafePrime\<close> are
  not in prepare.go. The spec (section 3) describes a pair (q, p), q the Sophie Germain
  component and p the safe prime; \<open>SafePrime()\<close> gives p and \<open>Prime()\<close> gives q. Both are
  \<open>*big.Int\<close>, a pointer, hence \<open>int option\<close> with \<open>None\<close> for nil.
\<close>

record GermainPrime =
  germain_q :: "int option"
  germain_p :: "int option"

definition SafePrime :: "GermainPrime \<Rightarrow> int option" where
  "SafePrime g = germain_p g"

definition Prime :: "GermainPrime \<Rightarrow> int option" where
  "Prime g = germain_q g"

text \<open>
  The struct literal of lines 62-67. \<open>'sk\<close> stands for \<open>paillier.PrivateKey\<close>; the field
  holds a pointer to it. The other three fields are \<open>*big.Int\<close>.
\<close>

record 'sk LocalPreParams =
  PaillierSK :: "'sk option"
  NTildei :: "int option"
  H1i :: "int option"
  H2i :: "int option"

text \<open>
  The collaborators. \<open>GenerateKeyPair\<close> returns two values, of which line 41 keeps the
  first and discards the second with \<open>_\<close> (the comment there reads "sk contains pk");
  \<open>'r\<close> is the type of the discarded value. \<open>GetRandomGermainPrimesConcurrent\<close> returns
  one value, a slice of pointers. \<open>GenerateNTildei\<close> takes an array of two \<open>*big.Int\<close> and
  returns three \<open>*big.Int\<close> and an error.
\<close>

record ('sk, 'r) env =
  NumCPU :: int
  PaillierModulusLen :: int
  SafePrimeBitLen :: int
  GenerateKeyPair :: "int \<Rightarrow> ('sk option \<times> 'r) call"
  GetRandomGermainPrimesConcurrent ::
    "int \<Rightarrow> int \<Rightarrow> int \<Rightarrow> GermainPrime option list call"
  GenerateNTildei ::
    "int option \<times> int option \<Rightarrow> (int option \<times> int option \<times> int option \<times> error option) call"

text \<open>
  The instrumentation: which collaborator was started, with which arguments, in program
  order. The two \<open>go\<close> statements of lines 39 and 47 start a goroutine each; line 57 is an
  ordinary call. The logging of lines 42 and 50 is not recorded.
\<close>

datatype event =
    GoGenerateKeyPair int
  | GoGetRandomGermainPrimesConcurrent int int int
  | CallGenerateNTildei "int option" "int option"

text \<open>
  How an invocation ends for its caller: it returns the pair of line 23's result type
  (a pointer to \<open>LocalPreParams\<close> and an error, either of which may be nil), the process
  panics, or the call never returns.
\<close>

datatype 'sk outcome =
    Returned "'sk LocalPreParams option" "error option"
  | Panicked panic
  | Blocked

subsection \<open>The function\<close>

text \<open>
  Lines 24-32. A Go \<open>int\<close> is passed on unchanged and never computed with, so its width
  plays no role and it is an \<open>int\<close> here. \<open>optionalConcurrency[0]\<close> is read only where
  \<open>0 < len(optionalConcurrency)\<close>.
\<close>

definition resolveConcurrency :: "('sk, 'r) env \<Rightarrow> int list \<Rightarrow> panic + int" where
  "resolveConcurrency env optionalConcurrency =
     (if 0 < length optionalConcurrency then
        (if 1 < length optionalConcurrency then
           Inl (PanicError
             (Error ''GeneratePreParams: expected 0 or 1 item in `optionalConcurrency`''))
         else Inr (optionalConcurrency ! 0))
      else Inr (NumCPU env))"

text \<open>
  Line 55, \<open>sgps, paiSK := <-sgpCh, <-paiCh\<close>: both channels are unbuffered and each is
  written by exactly one goroutine, once, after its collaborator has returned. The two
  receive operations are evaluated left to right and nothing else happens before both
  have delivered. A panic in either goroutine ends the process; otherwise a goroutine
  that never sends leaves the receiver blocked for ever.
\<close>

fun receiveBoth :: "'a call \<Rightarrow> 'b call \<Rightarrow> ('a \<times> 'b) call" where
  "receiveBoth Crash _ = Crash"
| "receiveBoth _ Crash = Crash"
| "receiveBoth Hang _ = Hang"
| "receiveBoth _ Hang = Hang"
| "receiveBoth (Done sgps) (Done pai) = Done (sgps, pai)"

text \<open>
  \<open>sgps[i].SafePrime()\<close> of line 57: the index expression panics beyond the length of the
  slice, the method reads a field through the pointer and panics on nil.
\<close>

definition safePrimeAt :: "GermainPrime option list \<Rightarrow> nat \<Rightarrow> panic + int option" where
  "safePrimeAt sgps i =
     (if i < length sgps then
        (case sgps ! i of
           None \<Rightarrow> Inl NilPointerDereference
         | Some g \<Rightarrow> Inr (SafePrime g))
      else Inl (IndexOutOfRange i (length sgps)))"

text \<open>
  Lines 57-68, given what line 55 received and the events so far. The two array elements
  are evaluated left to right, then \<open>GenerateNTildei\<close> is called; a non-nil error is
  returned with a nil record, otherwise the record is built from the received Paillier
  key and the three values.
\<close>

definition derivePreParams ::
  "('sk, 'r) env \<Rightarrow> event list \<Rightarrow> GermainPrime option list \<Rightarrow> 'sk option
     \<Rightarrow> 'sk outcome \<times> event list" where
  "derivePreParams env tr sgps paiSK =
     (case safePrimeAt sgps 0 of
        Inl pn \<Rightarrow> (Panicked pn, tr)
      | Inr p1 \<Rightarrow>
         (case safePrimeAt sgps 1 of
            Inl pn \<Rightarrow> (Panicked pn, tr)
          | Inr p2 \<Rightarrow>
             (case GenerateNTildei env (p1, p2) of
                Crash \<Rightarrow> (Panicked CalleePanic, tr @ [CallGenerateNTildei p1 p2])
              | Hang \<Rightarrow> (Blocked, tr @ [CallGenerateNTildei p1 p2])
              | Done (NTildei', h1i, h2i, err) \<Rightarrow>
                 (if err \<noteq> None then (Returned None err, tr @ [CallGenerateNTildei p1 p2])
                  else (Returned
                          (Some \<lparr>PaillierSK = paiSK, NTildei = NTildei', H1i = h1i, H2i = h2i\<rparr>)
                          None,
                        tr @ [CallGenerateNTildei p1 p2])))))"

text \<open>
  Lines 23-69. The result is the outcome for the caller together with the events of the
  run.
\<close>

definition GeneratePreParams ::
  "('sk, 'r) env \<Rightarrow> int list \<Rightarrow> 'sk outcome \<times> event list" where
  "GeneratePreParams env optionalConcurrency =
     (case resolveConcurrency env optionalConcurrency of
        Inl pn \<Rightarrow> (Panicked pn, [])
      | Inr concurrency \<Rightarrow>
         (let tr = [GoGenerateKeyPair (PaillierModulusLen env),
                    GoGetRandomGermainPrimesConcurrent (SafePrimeBitLen env) 2 concurrency]
          in case receiveBoth
                    (GetRandomGermainPrimesConcurrent env (SafePrimeBitLen env) 2 concurrency)
                    (GenerateKeyPair env (PaillierModulusLen env)) of
               Crash \<Rightarrow> (Panicked CalleePanic, tr)
             | Hang \<Rightarrow> (Blocked, tr)
             | Done (sgps, (PiPaillierSk, _)) \<Rightarrow> derivePreParams env tr sgps PiPaillierSk))"

subsection \<open>Observations on a run\<close>

text \<open>The arguments with which the Paillier generator was started in a run.\<close>

fun paillierLaunches :: "event list \<Rightarrow> int list" where
  "paillierLaunches [] = []"
| "paillierLaunches (GoGenerateKeyPair modulusBitLen # evs) =
     modulusBitLen # paillierLaunches evs"
| "paillierLaunches (_ # evs) = paillierLaunches evs"

text \<open>
  Modelled from the spec: \<open>crypto.GenerateNTildei\<close> is not in prepare.go. Section 4.3 of
  the spec gives its first result as NTilde = p1 * p2 for the two values it is handed.
  The predicate says that of a collaborator, for the runs in which it reports no error.
\<close>

definition NTildeIsProduct :: "('sk, 'r) env \<Rightarrow> bool" where
  "NTildeIsProduct env \<longleftrightarrow>
     (\<forall>p1 p2 n h1 h2.
        GenerateNTildei env (Some p1, Some p2) = Done (n, h1, h2, None) \<longrightarrow> n = Some (p1 * p2))"

subsection \<open>Concrete collaborators\<close>

text \<open>
  A small environment on which the function can be run: four CPUs, the bit lengths 2048
  and 1024, a Paillier generator that delivers a key, a search that delivers the safe
  primes 11 = 2 * 5 + 1 and 23 = 2 * 11 + 1, and a derivation with h1 = 4 and
  h2 = 4 ^ 2. The value the source discards is an \<open>error option\<close> here.
\<close>

definition toy_env :: "(nat, error option) env" where
  "toy_env =
     \<lparr>NumCPU = 4, PaillierModulusLen = 2048, SafePrimeBitLen = 1024,
      GenerateKeyPair = (\<lambda>modulusBitLen. Done (Some 77, None)),
      GetRandomGermainPrimesConcurrent = (\<lambda>bitLen numPrimes concurrency.
        Done [Some \<lparr>germain_q = Some 5, germain_p = Some 11\<rparr>,
              Some \<lparr>germain_q = Some 11, germain_p = Some 23\<rparr>]),
      GenerateNTildei = (\<lambda>(p1, p2).
        case p1 of
          None \<Rightarrow> Crash
        | Some a \<Rightarrow>
           (case p2 of
              None \<Rightarrow> Crash
            | Some b \<Rightarrow> Done (Some (a * b), Some 4, Some 16, None)))\<rparr>"

text \<open>The same, with a Paillier generator that reports a failure: no key, and an error
  as its second value.\<close>

definition paillier_failing_env :: "(nat, error option) env" where
  "paillier_failing_env =
     toy_env\<lparr>GenerateKeyPair :=
       (\<lambda>modulusBitLen. Done (None, Some (Error ''paillier: no key pair found'')))\<rparr>"

text \<open>The Paillier generator fails at once and the safe-prime search never finishes.\<close>

definition search_hanging_env :: "(nat, error option) env" where
  "search_hanging_env =
     paillier_failing_env\<lparr>GetRandomGermainPrimesConcurrent :=
       (\<lambda>bitLen numPrimes concurrency. Hang)\<rparr>"

text \<open>The derivation of the commitment parameters reports an error.\<close>

definition ntilde_failing_env :: "(nat, error option) env" where
  "ntilde_failing_env =
     toy_env\<lparr>GenerateNTildei :=
       (\<lambda>primes. Done (None, None, None, Some (Error ''ntilde: no generator found'')))\<rparr>"

text \<open>Every collaborator panics as soon as it is called.\<close>

definition crashing_env :: "(nat, error option) env" where
  "crashing_env =
     toy_env\<lparr>GenerateKeyPair := (\<lambda>modulusBitLen. Crash),
             GetRandomGermainPrimesConcurrent := (\<lambda>bitLen numPrimes concurrency. Crash),
             GenerateNTildei := (\<lambda>primes. Crash)\<rparr>"

text \<open>
  A search that delivers the two safe primes for a positive concurrency and never
  finishes otherwise (no worker is ever started), and a Paillier generator that
  delivers a key for the bit length 2048 only.
\<close>

definition strict_search_env :: "(nat, error option) env" where
  "strict_search_env =
     toy_env\<lparr>GenerateKeyPair :=
               (\<lambda>modulusBitLen. if modulusBitLen = 2048 then Done (Some 77, None) else Crash),
             GetRandomGermainPrimesConcurrent :=
               (\<lambda>bitLen numPrimes concurrency.
                  if bitLen = 1024 \<and> numPrimes = 2 \<and> 0 < concurrency
                  then Done [Some \<lparr>germain_q = Some 5, germain_p = Some 11\<rparr>,
                             Some \<lparr>germain_q = Some 11, germain_p = Some 23\<rparr>]
                  else Hang)\<rparr>"

section \<open>Properties\<close>

subsection \<open>Each part of the function\<close>

lemma resolveConcurrency_Inr_iff:
  "resolveConcurrency env oc = Inr c \<longleftrightarrow> (oc = [] \<and> c = NumCPU env) \<or> oc = [c]"
  by (cases oc; cases "tl oc") (auto simp: resolveConcurrency_def)

lemma resolveConcurrency_Inl_iff:
  "resolveConcurrency env oc = Inl pn \<longleftrightarrow>
     2 \<le> length oc \<and>
     pn = PanicError (Error ''GeneratePreParams: expected 0 or 1 item in `optionalConcurrency`'')"
  by (auto simp: resolveConcurrency_def)

lemma receiveBoth_Done_iff:
  "receiveBoth a b = Done xy \<longleftrightarrow> a = Done (fst xy) \<and> b = Done (snd xy)"
  by (cases a; cases b) auto

lemma receiveBoth_Hang_iff:
  "receiveBoth a b = Hang \<longleftrightarrow> a \<noteq> Crash \<and> b \<noteq> Crash \<and> (a = Hang \<or> b = Hang)"
  by (cases a; cases b) auto

lemma receiveBoth_Crash_iff:
  "receiveBoth a b = Crash \<longleftrightarrow> a = Crash \<or> b = Crash"
  by (cases a; cases b) auto

lemma safePrimeAt_Inr_iff:
  "safePrimeAt sgps i = Inr p \<longleftrightarrow> i < length sgps \<and> (\<exists>g. sgps ! i = Some g \<and> p = SafePrime g)"
  by (auto simp: safePrimeAt_def split: option.splits)

lemma safePrimeAt_Some:
  "i < length sgps \<Longrightarrow> sgps ! i = Some g \<Longrightarrow> safePrimeAt sgps i = Inr (SafePrime g)"
  by (simp add: safePrimeAt_def)

lemma derivePreParams_Returned_iff:
  "derivePreParams env tr sgps sk = (Returned r e, tr') \<longleftrightarrow>
     (\<exists>g0 g1 n h1 h2.
        1 < length sgps \<and> sgps ! 0 = Some g0 \<and> sgps ! 1 = Some g1 \<and>
        GenerateNTildei env (SafePrime g0, SafePrime g1) = Done (n, h1, h2, e) \<and>
        r = (if e = None then Some \<lparr>PaillierSK = sk, NTildei = n, H1i = h1, H2i = h2\<rparr>
             else None) \<and>
        tr' = tr @ [CallGenerateNTildei (SafePrime g0) (SafePrime g1)])"
    (is "?L \<longleftrightarrow> ?R")
proof
  assume ?L
  then show ?R
    unfolding derivePreParams_def
    by (auto simp: safePrimeAt_Inr_iff split: sum.splits call.splits if_splits)
next
  assume ?R
  then obtain g0 g1 n h1 h2 where
    len: "1 < length sgps" and g0: "sgps ! 0 = Some g0" and g1: "sgps ! 1 = Some g1" and
    nt: "GenerateNTildei env (SafePrime g0, SafePrime g1) = Done (n, h1, h2, e)" and
    r: "r = (if e = None then Some \<lparr>PaillierSK = sk, NTildei = n, H1i = h1, H2i = h2\<rparr>
             else None)" and
    tr': "tr' = tr @ [CallGenerateNTildei (SafePrime g0) (SafePrime g1)]"
    by blast
  from len have len0: "0 < length sgps" by arith
  have s0: "safePrimeAt sgps 0 = Inr (SafePrime g0)"
    using safePrimeAt_Some [OF len0 g0] .
  have s1: "safePrimeAt sgps 1 = Inr (SafePrime g1)"
    using safePrimeAt_Some [OF len g1] .
  show ?L
    unfolding derivePreParams_def using s0 s1 nt by (simp add: r tr')
qed

lemma GeneratePreParams_Returned_iff:
  "GeneratePreParams env oc = (Returned r e, tr) \<longleftrightarrow>
     (\<exists>c sgps sk x g0 g1 n h1 h2.
        resolveConcurrency env oc = Inr c \<and>
        GetRandomGermainPrimesConcurrent env (SafePrimeBitLen env) 2 c = Done sgps \<and>
        GenerateKeyPair env (PaillierModulusLen env) = Done (sk, x) \<and>
        1 < length sgps \<and> sgps ! 0 = Some g0 \<and> sgps ! 1 = Some g1 \<and>
        GenerateNTildei env (SafePrime g0, SafePrime g1) = Done (n, h1, h2, e) \<and>
        r = (if e = None then Some \<lparr>PaillierSK = sk, NTildei = n, H1i = h1, H2i = h2\<rparr>
             else None) \<and>
        tr = [GoGenerateKeyPair (PaillierModulusLen env),
              GoGetRandomGermainPrimesConcurrent (SafePrimeBitLen env) 2 c,
              CallGenerateNTildei (SafePrime g0) (SafePrime g1)])"
    (is "?L \<longleftrightarrow> ?R")
proof
  assume ?L
  then show ?R
    unfolding GeneratePreParams_def Let_def
    by (auto simp: receiveBoth_Done_iff derivePreParams_Returned_iff
             split: sum.splits call.splits prod.splits)
next
  assume ?R
  then obtain c sgps sk x g0 g1 n h1 h2 where
    rc: "resolveConcurrency env oc = Inr c" and
    sg: "GetRandomGermainPrimesConcurrent env (SafePrimeBitLen env) 2 c = Done sgps" and
    kp: "GenerateKeyPair env (PaillierModulusLen env) = Done (sk, x)" and
    rest: "1 < length sgps \<and> sgps ! 0 = Some g0 \<and> sgps ! 1 = Some g1 \<and>
        GenerateNTildei env (SafePrime g0, SafePrime g1) = Done (n, h1, h2, e) \<and>
        r = (if e = None then Some \<lparr>PaillierSK = sk, NTildei = n, H1i = h1, H2i = h2\<rparr>
             else None)" and
    tr: "tr = [GoGenerateKeyPair (PaillierModulusLen env),
              GoGetRandomGermainPrimesConcurrent (SafePrimeBitLen env) 2 c] @
              [CallGenerateNTildei (SafePrime g0) (SafePrime g1)]"
    by auto
  have "derivePreParams env [GoGenerateKeyPair (PaillierModulusLen env),
              GoGetRandomGermainPrimesConcurrent (SafePrimeBitLen env) 2 c] sgps sk =
          (Returned r e, tr)"
    unfolding derivePreParams_Returned_iff using rest tr by blast
  then show ?L
    unfolding GeneratePreParams_def Let_def by (simp add: rc sg kp)
qed


lemma GeneratePreParams_wrong_count:
  "2 \<le> length oc \<Longrightarrow>
     GeneratePreParams env oc =
       (Panicked (PanicError
          (Error ''GeneratePreParams: expected 0 or 1 item in `optionalConcurrency`'')), [])"
proof -
  assume "2 \<le> length oc"
  then have "resolveConcurrency env oc =
      Inl (PanicError
        (Error ''GeneratePreParams: expected 0 or 1 item in `optionalConcurrency`''))"
    unfolding resolveConcurrency_Inl_iff by simp
  then show ?thesis by (simp add: GeneratePreParams_def)
qed

lemma resolveConcurrency_short:
  "length oc \<le> 1 \<Longrightarrow>
     resolveConcurrency env oc = Inr (case oc of [] \<Rightarrow> NumCPU env | c # _ \<Rightarrow> c)"
  by (cases oc) (auto simp: resolveConcurrency_def)

lemma derivePreParams_trace:
  "\<exists>rest. snd (derivePreParams env tr sgps sk) = tr @ rest \<and>
          (rest = [] \<or> (\<exists>p1 p2. rest = [CallGenerateNTildei p1 p2]))"
  unfolding derivePreParams_def
  by (auto split: sum.splits call.splits)

lemma GeneratePreParams_trace:
  assumes "resolveConcurrency env oc = Inr c"
  shows "\<exists>rest. snd (GeneratePreParams env oc) =
            [GoGenerateKeyPair (PaillierModulusLen env),
             GoGetRandomGermainPrimesConcurrent (SafePrimeBitLen env) 2 c] @ rest \<and>
          (rest = [] \<or> (\<exists>p1 p2. rest = [CallGenerateNTildei p1 p2]))"
proof (cases "receiveBoth
                (GetRandomGermainPrimesConcurrent env (SafePrimeBitLen env) 2 c)
                (GenerateKeyPair env (PaillierModulusLen env))")
  case (Done both)
  obtain sgps sk x where both: "both = (sgps, sk, x)"
    by (cases both) auto
  show ?thesis
    using derivePreParams_trace
      [of env "[GoGenerateKeyPair (PaillierModulusLen env),
                GoGetRandomGermainPrimesConcurrent (SafePrimeBitLen env) 2 c]" sgps sk]
    by (simp add: GeneratePreParams_def assms Done both)
next
  case Crash
  then show ?thesis by (simp add: GeneratePreParams_def assms)
next
  case Hang
  then show ?thesis by (simp add: GeneratePreParams_def assms)
qed

lemma GeneratePreParams_Hang:
  assumes "resolveConcurrency env oc = Inr c"
    and "receiveBoth
           (GetRandomGermainPrimesConcurrent env (SafePrimeBitLen env) 2 c)
           (GenerateKeyPair env (PaillierModulusLen env)) = Hang"
  shows "GeneratePreParams env oc =
           (Blocked, [GoGenerateKeyPair (PaillierModulusLen env),
                      GoGetRandomGermainPrimesConcurrent (SafePrimeBitLen env) 2 c])"
  using assms by (simp add: GeneratePreParams_def)

lemma derivePreParams_env:
  "GenerateNTildei env' = GenerateNTildei env \<Longrightarrow>
     derivePreParams env' tr sgps sk = derivePreParams env tr sgps sk"
  by (simp add: derivePreParams_def cong: sum.case_cong call.case_cong)

lemma GeneratePreParams_supplied_as_default:
  "GeneratePreParams env [c] = GeneratePreParams (env\<lparr>NumCPU := c\<rparr>) []"
proof -
  have d: "\<And>tr sgps sk.
      derivePreParams (env\<lparr>NumCPU := c\<rparr>) tr sgps sk = derivePreParams env tr sgps sk"
    by (rule derivePreParams_env) simp
  show ?thesis
    unfolding GeneratePreParams_def Let_def d
    by (simp add: resolveConcurrency_def cong: call.case_cong)
qed

lemma receiveBoth_map_snd:
  "receiveBoth a (map_call (\<lambda>(sk, x). (sk, f x)) b) =
     map_call (\<lambda>(sgps, sk, x). (sgps, sk, f x)) (receiveBoth a b)"
  by (cases a; cases b) auto

lemma GeneratePreParams_second_value_unused:
  "GeneratePreParams
     (env\<lparr>GenerateKeyPair :=
        (\<lambda>modulusBitLen. map_call (\<lambda>(sk, x). (sk, f x)) (GenerateKeyPair env modulusBitLen))\<rparr>)
     oc = GeneratePreParams env oc"
    (is "GeneratePreParams ?env' oc = _")
proof -
  have d: "\<And>tr sgps sk. derivePreParams ?env' tr sgps sk = derivePreParams env tr sgps sk"
    by (rule derivePreParams_env) simp
  have r: "resolveConcurrency ?env' oc = resolveConcurrency env oc"
    by (simp add: resolveConcurrency_def)
  show ?thesis
  proof (cases "resolveConcurrency env oc")
    case (Inl pn)
    then show ?thesis by (simp add: GeneratePreParams_def r)
  next
    case (Inr c)
    show ?thesis
      unfolding GeneratePreParams_def Let_def d r Inr
      by (cases "receiveBoth
                   (GetRandomGermainPrimesConcurrent env (SafePrimeBitLen env) 2 c)
                   (GenerateKeyPair env (PaillierModulusLen env))")
         (simp_all add: receiveBoth_map_snd split: prod.splits)
  qed
qed

subsection \<open>Every outcome, in terms of what the collaborators deliver\<close>

lemma safePrimeAt_Inl:
  "safePrimeAt sgps i = Inl pn \<Longrightarrow>
     pn = NilPointerDereference \<or> pn = IndexOutOfRange i (length sgps)"
  by (auto simp: safePrimeAt_def split: if_splits option.splits)

lemma derivePreParams_Blocked_iff:
  "fst (derivePreParams env tr sgps sk) = Blocked \<longleftrightarrow>
     (\<exists>g0 g1. 1 < length sgps \<and> sgps ! 0 = Some g0 \<and> sgps ! 1 = Some g1 \<and>
        GenerateNTildei env (SafePrime g0, SafePrime g1) = Hang)"
    (is "?L \<longleftrightarrow> ?R")
proof
  assume ?L
  then show ?R
    unfolding derivePreParams_def
    by (auto simp: safePrimeAt_Inr_iff split: sum.splits call.splits if_splits)
next
  assume ?R
  then obtain g0 g1 where
    len: "1 < length sgps" and g0: "sgps ! 0 = Some g0" and g1: "sgps ! 1 = Some g1" and
    nt: "GenerateNTildei env (SafePrime g0, SafePrime g1) = Hang"
    by blast
  from len have len0: "0 < length sgps" by arith
  have s0: "safePrimeAt sgps 0 = Inr (SafePrime g0)"
    using safePrimeAt_Some [OF len0 g0] .
  have s1: "safePrimeAt sgps 1 = Inr (SafePrime g1)"
    using safePrimeAt_Some [OF len g1] .
  show ?L
    unfolding derivePreParams_def using s0 s1 nt by simp
qed

lemma derivePreParams_Panicked_iff:
  "fst (derivePreParams env tr sgps sk) = Panicked pn \<longleftrightarrow>
     safePrimeAt sgps 0 = Inl pn \<or>
     (\<exists>p1. safePrimeAt sgps 0 = Inr p1 \<and> safePrimeAt sgps 1 = Inl pn) \<or>
     (\<exists>p1 p2. safePrimeAt sgps 0 = Inr p1 \<and> safePrimeAt sgps 1 = Inr p2 \<and>
        GenerateNTildei env (p1, p2) = Crash \<and> pn = CalleePanic)"
  unfolding derivePreParams_def
  by (auto split: sum.splits call.splits if_splits)

lemma GeneratePreParams_resolved:
  assumes "resolveConcurrency env oc = Inr c"
  shows "GeneratePreParams env oc =
     (case receiveBoth
             (GetRandomGermainPrimesConcurrent env (SafePrimeBitLen env) 2 c)
             (GenerateKeyPair env (PaillierModulusLen env)) of
        Crash \<Rightarrow> (Panicked CalleePanic,
                   [GoGenerateKeyPair (PaillierModulusLen env),
                    GoGetRandomGermainPrimesConcurrent (SafePrimeBitLen env) 2 c])
      | Hang \<Rightarrow> (Blocked,
                  [GoGenerateKeyPair (PaillierModulusLen env),
                   GoGetRandomGermainPrimesConcurrent (SafePrimeBitLen env) 2 c])
      | Done (sgps, (PiPaillierSk, _)) \<Rightarrow>
          derivePreParams env
            [GoGenerateKeyPair (PaillierModulusLen env),
             GoGetRandomGermainPrimesConcurrent (SafePrimeBitLen env) 2 c] sgps PiPaillierSk)"
  unfolding GeneratePreParams_def Let_def assms by simp

lemma GeneratePreParams_Blocked_iff:
  assumes rc: "resolveConcurrency env oc = Inr c"
  shows "fst (GeneratePreParams env oc) = Blocked \<longleftrightarrow>
     (GetRandomGermainPrimesConcurrent env (SafePrimeBitLen env) 2 c \<noteq> Crash \<and>
      GenerateKeyPair env (PaillierModulusLen env) \<noteq> Crash \<and>
      (GetRandomGermainPrimesConcurrent env (SafePrimeBitLen env) 2 c = Hang \<or>
       GenerateKeyPair env (PaillierModulusLen env) = Hang)) \<or>
     (\<exists>sgps sk x g0 g1.
        GetRandomGermainPrimesConcurrent env (SafePrimeBitLen env) 2 c = Done sgps \<and>
        GenerateKeyPair env (PaillierModulusLen env) = Done (sk, x) \<and>
        1 < length sgps \<and> sgps ! 0 = Some g0 \<and> sgps ! 1 = Some g1 \<and>
        GenerateNTildei env (SafePrime g0, SafePrime g1) = Hang)"
proof (cases "receiveBoth
             (GetRandomGermainPrimesConcurrent env (SafePrimeBitLen env) 2 c)
             (GenerateKeyPair env (PaillierModulusLen env))")
  case (Done both)
  obtain sgps sk x where both: "both = (sgps, sk, x)" by (cases both) auto
  from Done both have d:
    "GetRandomGermainPrimesConcurrent env (SafePrimeBitLen env) 2 c = Done sgps"
    "GenerateKeyPair env (PaillierModulusLen env) = Done (sk, x)"
    by (simp_all add: receiveBoth_Done_iff)
  have "fst (GeneratePreParams env oc) =
      fst (derivePreParams env
            [GoGenerateKeyPair (PaillierModulusLen env),
             GoGetRandomGermainPrimesConcurrent (SafePrimeBitLen env) 2 c] sgps sk)"
    by (simp add: GeneratePreParams_resolved [OF rc] Done both)
  then show ?thesis
    by (simp add: derivePreParams_Blocked_iff d)
next
  case Crash
  then have "GetRandomGermainPrimesConcurrent env (SafePrimeBitLen env) 2 c = Crash \<or>
      GenerateKeyPair env (PaillierModulusLen env) = Crash"
    by (simp add: receiveBoth_Crash_iff)
  moreover have "fst (GeneratePreParams env oc) = Panicked CalleePanic"
    by (simp add: GeneratePreParams_resolved [OF rc] Crash)
  ultimately show ?thesis by auto
next
  case Hang
  then have h: "GetRandomGermainPrimesConcurrent env (SafePrimeBitLen env) 2 c \<noteq> Crash \<and>
      GenerateKeyPair env (PaillierModulusLen env) \<noteq> Crash \<and>
      (GetRandomGermainPrimesConcurrent env (SafePrimeBitLen env) 2 c = Hang \<or>
       GenerateKeyPair env (PaillierModulusLen env) = Hang)"
    by (simp add: receiveBoth_Hang_iff)
  moreover have "fst (GeneratePreParams env oc) = Blocked"
    by (simp add: GeneratePreParams_resolved [OF rc] Hang)
  ultimately show ?thesis by blast
qed

lemma GeneratePreParams_Panicked_iff:
  assumes rc: "resolveConcurrency env oc = Inr c"
  shows "fst (GeneratePreParams env oc) = Panicked pn \<longleftrightarrow>
     ((GetRandomGermainPrimesConcurrent env (SafePrimeBitLen env) 2 c = Crash \<or>
       GenerateKeyPair env (PaillierModulusLen env) = Crash) \<and> pn = CalleePanic) \<or>
     (\<exists>sgps sk x.
        GetRandomGermainPrimesConcurrent env (SafePrimeBitLen env) 2 c = Done sgps \<and>
        GenerateKeyPair env (PaillierModulusLen env) = Done (sk, x) \<and>
        (safePrimeAt sgps 0 = Inl pn \<or>
         (\<exists>p1. safePrimeAt sgps 0 = Inr p1 \<and> safePrimeAt sgps 1 = Inl pn) \<or>
         (\<exists>p1 p2. safePrimeAt sgps 0 = Inr p1 \<and> safePrimeAt sgps 1 = Inr p2 \<and>
            GenerateNTildei env (p1, p2) = Crash \<and> pn = CalleePanic)))"
proof (cases "receiveBoth
             (GetRandomGermainPrimesConcurrent env (SafePrimeBitLen env) 2 c)
             (GenerateKeyPair env (PaillierModulusLen env))")
  case (Done both)
  obtain sgps sk x where both: "both = (sgps, sk, x)" by (cases both) auto
  from Done both have d:
    "GetRandomGermainPrimesConcurrent env (SafePrimeBitLen env) 2 c = Done sgps"
    "GenerateKeyPair env (PaillierModulusLen env) = Done (sk, x)"
    by (simp_all add: receiveBoth_Done_iff)
  have "fst (GeneratePreParams env oc) =
      fst (derivePreParams env
            [GoGenerateKeyPair (PaillierModulusLen env),
             GoGetRandomGermainPrimesConcurrent (SafePrimeBitLen env) 2 c] sgps sk)"
    by (simp add: GeneratePreParams_resolved [OF rc] Done both)
  then show ?thesis
    by (simp add: derivePreParams_Panicked_iff d)
next
  case Crash
  then have "GetRandomGermainPrimesConcurrent env (SafePrimeBitLen env) 2 c = Crash \<or>
      GenerateKeyPair env (PaillierModulusLen env) = Crash"
    by (simp add: receiveBoth_Crash_iff)
  moreover have "fst (GeneratePreParams env oc) = Panicked CalleePanic"
    by (simp add: GeneratePreParams_resolved [OF rc] Crash)
  ultimately show ?thesis by auto
next
  case Hang
  then have h: "GetRandomGermainPrimesConcurrent env (SafePrimeBitLen env) 2 c \<noteq> Crash \<and>
      GenerateKeyPair env (PaillierModulusLen env) \<noteq> Crash \<and>
      (GetRandomGermainPrimesConcurrent env (SafePrimeBitLen env) 2 c = Hang \<or>
       GenerateKeyPair env (PaillierModulusLen env) = Hang)"
    by (simp add: receiveBoth_Hang_iff)
  moreover have "fst (GeneratePreParams env oc) = Blocked"
    by (simp add: GeneratePreParams_resolved [OF rc] Hang)
  ultimately show ?thesis by auto
qed

lemma GeneratePreParams_Returned_resolved_iff:
  assumes rc: "resolveConcurrency env oc = Inr c"
  shows "fst (GeneratePreParams env oc) = Returned r e \<longleftrightarrow>
     (\<exists>sgps sk x g0 g1 n h1 h2.
        GetRandomGermainPrimesConcurrent env (SafePrimeBitLen env) 2 c = Done sgps \<and>
        GenerateKeyPair env (PaillierModulusLen env) = Done (sk, x) \<and>
        1 < length sgps \<and> sgps ! 0 = Some g0 \<and> sgps ! 1 = Some g1 \<and>
        GenerateNTildei env (SafePrime g0, SafePrime g1) = Done (n, h1, h2, e) \<and>
        r = (if e = None then Some \<lparr>PaillierSK = sk, NTildei = n, H1i = h1, H2i = h2\<rparr>
             else None))"
proof -
  have "fst (GeneratePreParams env oc) = Returned r e \<longleftrightarrow>
      (\<exists>tr. GeneratePreParams env oc = (Returned r e, tr))"
    by (cases "GeneratePreParams env oc") simp
  also have "\<dots> \<longleftrightarrow>
     (\<exists>sgps sk x g0 g1 n h1 h2.
        GetRandomGermainPrimesConcurrent env (SafePrimeBitLen env) 2 c = Done sgps \<and>
        GenerateKeyPair env (PaillierModulusLen env) = Done (sk, x) \<and>
        1 < length sgps \<and> sgps ! 0 = Some g0 \<and> sgps ! 1 = Some g1 \<and>
        GenerateNTildei env (SafePrime g0, SafePrime g1) = Done (n, h1, h2, e) \<and>
        r = (if e = None then Some \<lparr>PaillierSK = sk, NTildei = n, H1i = h1, H2i = h2\<rparr>
             else None))"
    unfolding GeneratePreParams_Returned_iff rc by auto
  finally show ?thesis .
qed

lemma GeneratePreParams_frame_GenerateKeyPair:
  assumes "kp (PaillierModulusLen env) = GenerateKeyPair env (PaillierModulusLen env)"
  shows "GeneratePreParams (env\<lparr>GenerateKeyPair := kp\<rparr>) oc = GeneratePreParams env oc"
proof -
  have d: "\<And>tr sgps sk.
      derivePreParams (env\<lparr>GenerateKeyPair := kp\<rparr>) tr sgps sk = derivePreParams env tr sgps sk"
    by (rule derivePreParams_env) simp
  have r: "resolveConcurrency (env\<lparr>GenerateKeyPair := kp\<rparr>) oc = resolveConcurrency env oc"
    by (simp add: resolveConcurrency_def)
  show ?thesis
    unfolding GeneratePreParams_def Let_def d r
    by (simp add: assms cong: sum.case_cong call.case_cong)
qed

lemma GeneratePreParams_frame_search:
  assumes "resolveConcurrency env oc = Inr c"
    and "sg (SafePrimeBitLen env) 2 c =
           GetRandomGermainPrimesConcurrent env (SafePrimeBitLen env) 2 c"
  shows "GeneratePreParams (env\<lparr>GetRandomGermainPrimesConcurrent := sg\<rparr>) oc =
           GeneratePreParams env oc"
proof -
  have d: "\<And>tr sgps sk.
      derivePreParams (env\<lparr>GetRandomGermainPrimesConcurrent := sg\<rparr>) tr sgps sk =
        derivePreParams env tr sgps sk"
    by (rule derivePreParams_env) simp
  have "resolveConcurrency (env\<lparr>GetRandomGermainPrimesConcurrent := sg\<rparr>) oc =
      resolveConcurrency env oc"
    by (simp add: resolveConcurrency_def)
  with assms(1)
  have r: "resolveConcurrency (env\<lparr>GetRandomGermainPrimesConcurrent := sg\<rparr>) oc = Inr c"
    by simp
  show ?thesis
    unfolding GeneratePreParams_def Let_def d r assms(1)
    by (simp add: assms(2) cong: sum.case_cong call.case_cong)
qed

lemma GeneratePreParams_default_as_supplied:
  "GeneratePreParams env [] = GeneratePreParams env [NumCPU env]"
  by (simp add: GeneratePreParams_def resolveConcurrency_def)

text \<open>The definitions that running the function on a concrete environment unfolds.\<close>

lemmas toy_eval =
  GeneratePreParams_def resolveConcurrency_def derivePreParams_def safePrimeAt_def
  SafePrime_def toy_env_def paillier_failing_env_def search_hanging_env_def
  ntilde_failing_env_def crashing_env_def strict_search_env_def

subsection \<open>C1: resolving the concurrency value\<close>

text \<open>
  C1 says: with no argument the safe-prime search runs with the number of CPUs, and a
  supplied value that is zero or negative makes the call fail at once with a
  configuration error, before any cryptographic computation.

  The second half does not hold. Run on the concrete environment with the argument 0,
  the function starts both generators, hands 0 to the safe-prime search as its
  concurrency, and returns a record with a nil error.
\<close>

theorem C1_counterexample:
  "GeneratePreParams toy_env [0] =
     (Returned
        (Some \<lparr>PaillierSK = Some 77, NTildei = Some 253, H1i = Some 4, H2i = Some 16\<rparr>)
        None,
      [GoGenerateKeyPair 2048,
       GoGetRandomGermainPrimesConcurrent 1024 2 0,
       CallGenerateNTildei (Some 11) (Some 23)])"
  by (simp add: toy_eval)

text \<open>
  C1 as amended: with no argument the run is the run with the argument
  \<open>runtime.NumCPU()\<close>. With one argument \<open>c\<close>, of any sign, the function performs no
  validation and produces no configuration error: it starts both generators and hands
  \<open>c\<close> unchanged to the safe-prime search, and how the run ends is decided by what
  \<open>GetRandomGermainPrimesConcurrent(SafePrimeBitLen, 2, c)\<close>,
  \<open>GenerateKeyPair(PaillierModulusLen)\<close> and \<open>GenerateNTildei\<close> deliver, and by nothing
  else. It returns exactly when the search called with \<open>c\<close> and the Paillier generator
  have both delivered, the slice holds non-nil entries at indices 0 and 1 and
  \<open>GenerateNTildei\<close> has returned for them, and then the error is the one
  \<open>GenerateNTildei\<close> returned; it never returns when one of the two tasks never delivers
  and neither panics, or when \<open>GenerateNTildei\<close> never returns; it panics in the
  remaining cases, never with the error of line 27.
\<close>

theorem C1_concurrency_default_or_as_supplied:
  "GeneratePreParams env [] = GeneratePreParams env [NumCPU env] \<and>
   GeneratePreParams env [c] = GeneratePreParams (env\<lparr>NumCPU := c\<rparr>) [] \<and>
   take 2 (snd (GeneratePreParams env [])) =
     [GoGenerateKeyPair (PaillierModulusLen env),
      GoGetRandomGermainPrimesConcurrent (SafePrimeBitLen env) 2 (NumCPU env)] \<and>
   take 2 (snd (GeneratePreParams env [c])) =
     [GoGenerateKeyPair (PaillierModulusLen env),
      GoGetRandomGermainPrimesConcurrent (SafePrimeBitLen env) 2 c] \<and>
   (fst (GeneratePreParams env [c]) = Returned r e \<longleftrightarrow>
      (\<exists>sgps sk x g0 g1 n h1 h2.
         GetRandomGermainPrimesConcurrent env (SafePrimeBitLen env) 2 c = Done sgps \<and>
         GenerateKeyPair env (PaillierModulusLen env) = Done (sk, x) \<and>
         1 < length sgps \<and> sgps ! 0 = Some g0 \<and> sgps ! 1 = Some g1 \<and>
         GenerateNTildei env (SafePrime g0, SafePrime g1) = Done (n, h1, h2, e) \<and>
         r = (if e = None then Some \<lparr>PaillierSK = sk, NTildei = n, H1i = h1, H2i = h2\<rparr>
              else None))) \<and>
   (fst (GeneratePreParams env [c]) = Blocked \<longleftrightarrow>
      (GetRandomGermainPrimesConcurrent env (SafePrimeBitLen env) 2 c \<noteq> Crash \<and>
       GenerateKeyPair env (PaillierModulusLen env) \<noteq> Crash \<and>
       (GetRandomGermainPrimesConcurrent env (SafePrimeBitLen env) 2 c = Hang \<or>
        GenerateKeyPair env (PaillierModulusLen env) = Hang)) \<or>
      (\<exists>sgps sk x g0 g1.
         GetRandomGermainPrimesConcurrent env (SafePrimeBitLen env) 2 c = Done sgps \<and>
         GenerateKeyPair env (PaillierModulusLen env) = Done (sk, x) \<and>
         1 < length sgps \<and> sgps ! 0 = Some g0 \<and> sgps ! 1 = Some g1 \<and>
         GenerateNTildei env (SafePrime g0, SafePrime g1) = Hang)) \<and>
   (fst (GeneratePreParams env [c]) = Panicked pn \<longleftrightarrow>
      ((GetRandomGermainPrimesConcurrent env (SafePrimeBitLen env) 2 c = Crash \<or>
        GenerateKeyPair env (PaillierModulusLen env) = Crash) \<and> pn = CalleePanic) \<or>
      (\<exists>sgps sk x.
         GetRandomGermainPrimesConcurrent env (SafePrimeBitLen env) 2 c = Done sgps \<and>
         GenerateKeyPair env (PaillierModulusLen env) = Done (sk, x) \<and>
         (safePrimeAt sgps 0 = Inl pn \<or>
          (\<exists>p1. safePrimeAt sgps 0 = Inr p1 \<and> safePrimeAt sgps 1 = Inl pn) \<or>
          (\<exists>p1 p2. safePrimeAt sgps 0 = Inr p1 \<and> safePrimeAt sgps 1 = Inr p2 \<and>
             GenerateNTildei env (p1, p2) = Crash \<and> pn = CalleePanic))))"
proof -
  have r0: "resolveConcurrency env [] = Inr (NumCPU env)"
    by (simp add: resolveConcurrency_def)
  have r1: "resolveConcurrency env [c] = Inr c"
    by (simp add: resolveConcurrency_def)
  from GeneratePreParams_trace [OF r0]
  have t0: "take 2 (snd (GeneratePreParams env [])) =
     [GoGenerateKeyPair (PaillierModulusLen env),
      GoGetRandomGermainPrimesConcurrent (SafePrimeBitLen env) 2 (NumCPU env)]"
    by auto
  from GeneratePreParams_trace [OF r1]
  have t1: "take 2 (snd (GeneratePreParams env [c])) =
     [GoGenerateKeyPair (PaillierModulusLen env),
      GoGetRandomGermainPrimesConcurrent (SafePrimeBitLen env) 2 c]"
    by auto
  note d = GeneratePreParams_default_as_supplied [of env]
  note s = GeneratePreParams_supplied_as_default [of env c]
  note ret = GeneratePreParams_Returned_resolved_iff [OF r1, of r e]
  note blk = GeneratePreParams_Blocked_iff [OF r1]
  note pan = GeneratePreParams_Panicked_iff [OF r1, of pn]
  show ?thesis
    apply (intro conjI)
          apply (rule d)
         apply (rule s)
        apply (rule t0)
       apply (rule t1)
      apply (rule ret)
     apply (rule blk)
    apply (rule pan)
    done
qed

text \<open>
  On a host whose search never finishes for a concurrency below 1: the argument 0 is
  neither rejected nor replaced, the run blocks with both generators started; the
  argument 3 gives a result.
\<close>

theorem C1_witness:
  "GetRandomGermainPrimesConcurrent strict_search_env (SafePrimeBitLen strict_search_env) 2 0 =
     Hang \<and>
   GenerateKeyPair strict_search_env (PaillierModulusLen strict_search_env) =
     Done (Some 77, None) \<and>
   fst (GeneratePreParams strict_search_env [0]) = Blocked \<and>
   fst (GeneratePreParams strict_search_env [3]) =
     Returned
       (Some \<lparr>PaillierSK = Some 77, NTildei = Some 253, H1i = Some 4, H2i = Some 16\<rparr>) None \<and>
   GeneratePreParams (strict_search_env\<lparr>NumCPU := 0\<rparr>) [] =
     GeneratePreParams strict_search_env [0]"
proof -
  have sg: "GetRandomGermainPrimesConcurrent strict_search_env
      (SafePrimeBitLen strict_search_env) 2 0 = Hang"
    by (simp add: strict_search_env_def toy_env_def)
  have kp: "GenerateKeyPair strict_search_env (PaillierModulusLen strict_search_env) =
      Done (Some 77, None)"
    by (simp add: strict_search_env_def toy_env_def)
  have ret: "fst (GeneratePreParams strict_search_env [3]) =
     Returned
       (Some \<lparr>PaillierSK = Some 77, NTildei = Some 253, H1i = Some 4, H2i = Some 16\<rparr>) None"
    by (simp add: toy_eval)
  note th = C1_concurrency_default_or_as_supplied [of strict_search_env 0]
  from th [THEN conjunct2, THEN conjunct1]
  have eq: "GeneratePreParams (strict_search_env\<lparr>NumCPU := 0\<rparr>) [] =
     GeneratePreParams strict_search_env [0]"
    by (rule sym)
  from th [THEN conjunct2, THEN conjunct2, THEN conjunct2, THEN conjunct2,
      THEN conjunct2, THEN conjunct1] sg kp
  have blk: "fst (GeneratePreParams strict_search_env [0]) = Blocked"
    by simp
  from sg kp blk ret eq show ?thesis by blast
qed

subsection \<open>C2: which errors reach the caller\<close>

text \<open>
  C2 says: every error arising in a subtask is reported to the caller as an explicit
  error result, none is silently swallowed; in particular a failure of
  \<open>paillier.GenerateKeyPair\<close> is returned as the orchestrator's error.

  Line 41 discards the second value of \<open>GenerateKeyPair\<close> and nothing checks the first.
  With a generator that reports a failure (no key, and an error as its second value) the
  function returns a record whose \<open>PaillierSK\<close> is nil, and a nil error.
\<close>

theorem C2_counterexample:
  "GeneratePreParams paillier_failing_env [] =
     (Returned
        (Some \<lparr>PaillierSK = None, NTildei = Some 253, H1i = Some 4, H2i = Some 16\<rparr>)
        None,
      [GoGenerateKeyPair 2048,
       GoGetRandomGermainPrimesConcurrent 1024 2 4,
       CallGenerateNTildei (Some 11) (Some 23)])"
  by (simp add: toy_eval)

text \<open>
  C2 as amended: the only error GeneratePreParams returns is the error returned by
  \<open>crypto.GenerateNTildei\<close>, which it returns unchanged together with a nil record: the
  function returns a non-nil error \<open>e\<close> exactly when both goroutines have delivered, the
  slice holds two non-nil entries at indices 0 and 1, and \<open>GenerateNTildei\<close>, called on
  their two safe primes, returned \<open>e\<close>. The second value returned by \<open>GenerateKeyPair\<close>
  is discarded: replacing it by anything else changes neither the outcome nor the events
  of the run.
\<close>

theorem C2_returned_error_is_GenerateNTildei_error:
  "(fst (GeneratePreParams env oc) = Returned r (Some e) \<longleftrightarrow>
      r = None \<and>
      (\<exists>c sgps sk x g0 g1 n h1 h2.
         resolveConcurrency env oc = Inr c \<and>
         GetRandomGermainPrimesConcurrent env (SafePrimeBitLen env) 2 c = Done sgps \<and>
         GenerateKeyPair env (PaillierModulusLen env) = Done (sk, x) \<and>
         1 < length sgps \<and> sgps ! 0 = Some g0 \<and> sgps ! 1 = Some g1 \<and>
         GenerateNTildei env (SafePrime g0, SafePrime g1) = Done (n, h1, h2, Some e))) \<and>
   GeneratePreParams
     (env\<lparr>GenerateKeyPair :=
        (\<lambda>modulusBitLen. map_call (\<lambda>(sk, x). (sk, f x)) (GenerateKeyPair env modulusBitLen))\<rparr>)
     oc = GeneratePreParams env oc"
proof (intro conjI)
  have "fst (GeneratePreParams env oc) = Returned r (Some e) \<longleftrightarrow>
      (\<exists>tr. GeneratePreParams env oc = (Returned r (Some e), tr))"
    by (cases "GeneratePreParams env oc") simp
  also have "\<dots> \<longleftrightarrow>
      r = None \<and>
      (\<exists>c sgps sk x g0 g1 n h1 h2.
         resolveConcurrency env oc = Inr c \<and>
         GetRandomGermainPrimesConcurrent env (SafePrimeBitLen env) 2 c = Done sgps \<and>
         GenerateKeyPair env (PaillierModulusLen env) = Done (sk, x) \<and>
         1 < length sgps \<and> sgps ! 0 = Some g0 \<and> sgps ! 1 = Some g1 \<and>
         GenerateNTildei env (SafePrime g0, SafePrime g1) = Done (n, h1, h2, Some e))"
    unfolding GeneratePreParams_Returned_iff by auto
  finally show "fst (GeneratePreParams env oc) = Returned r (Some e) \<longleftrightarrow>
      r = None \<and>
      (\<exists>c sgps sk x g0 g1 n h1 h2.
         resolveConcurrency env oc = Inr c \<and>
         GetRandomGermainPrimesConcurrent env (SafePrimeBitLen env) 2 c = Done sgps \<and>
         GenerateKeyPair env (PaillierModulusLen env) = Done (sk, x) \<and>
         1 < length sgps \<and> sgps ! 0 = Some g0 \<and> sgps ! 1 = Some g1 \<and>
         GenerateNTildei env (SafePrime g0, SafePrime g1) = Done (n, h1, h2, Some e))" .
  show "GeneratePreParams
     (env\<lparr>GenerateKeyPair :=
        (\<lambda>modulusBitLen. map_call (\<lambda>(sk, x). (sk, f x)) (GenerateKeyPair env modulusBitLen))\<rparr>)
     oc = GeneratePreParams env oc"
    by (rule GeneratePreParams_second_value_unused)
qed

theorem C2_witness:
  "fst (GeneratePreParams ntilde_failing_env []) =
     Returned None (Some (Error ''ntilde: no generator found'')) \<and>
   (\<exists>c sgps sk x g0 g1 n h1 h2.
      resolveConcurrency ntilde_failing_env [] = Inr c \<and>
      GetRandomGermainPrimesConcurrent ntilde_failing_env
        (SafePrimeBitLen ntilde_failing_env) 2 c = Done sgps \<and>
      GenerateKeyPair ntilde_failing_env (PaillierModulusLen ntilde_failing_env) =
        Done (sk, x) \<and>
      1 < length sgps \<and> sgps ! 0 = Some g0 \<and> sgps ! 1 = Some g1 \<and>
      GenerateNTildei ntilde_failing_env (SafePrime g0, SafePrime g1) =
        Done (n, h1, h2, Some (Error ''ntilde: no generator found''))) \<and>
   GeneratePreParams
     (paillier_failing_env\<lparr>GenerateKeyPair :=
        (\<lambda>modulusBitLen. map_call (\<lambda>(sk, x). (sk, None))
           (GenerateKeyPair paillier_failing_env modulusBitLen))\<rparr>) [] =
     GeneratePreParams paillier_failing_env []"
proof -
  have a: "fst (GeneratePreParams ntilde_failing_env []) =
     Returned None (Some (Error ''ntilde: no generator found''))"
    by (simp add: toy_eval)
  from a C2_returned_error_is_GenerateNTildei_error
      [of ntilde_failing_env "[]" None "Error ''ntilde: no generator found''"]
    C2_returned_error_is_GenerateNTildei_error
      [of paillier_failing_env "[]" _ _ "\<lambda>x. None"]
  show ?thesis by blast
qed

subsection \<open>C3: what a returned record holds\<close>

text \<open>
  C3 says: the caller receives either a complete result, all four fields populated from a
  fully successful run, or a single error; a record whose Paillier secret key is absent
  because that subtask failed is never returned.

  Line 63 stores whatever pointer the Paillier goroutine sent. With a generator that
  delivers nil, and one optional argument, the function returns a record whose
  \<open>PaillierSK\<close> is nil, with a nil error.
\<close>

theorem C3_counterexample:
  "fst (GeneratePreParams paillier_failing_env [8]) =
     Returned
       (Some \<lparr>PaillierSK = None, NTildei = Some 253, H1i = Some 4, H2i = Some 16\<rparr>)
       None"
  by (simp add: toy_eval)

text \<open>
  C3 as amended: whenever GeneratePreParams returns, both goroutines have delivered, the
  slice holds non-nil entries at indices 0 and 1, and \<open>GenerateNTildei\<close> has returned for
  their two safe primes. The returned error is the error of \<open>GenerateNTildei\<close>. If it is
  non-nil the record is nil; if it is nil the record holds, in \<open>NTildei\<close>, \<open>H1i\<close> and
  \<open>H2i\<close>, the three values \<open>GenerateNTildei\<close> returned, and in \<open>PaillierSK\<close> the pointer
  that \<open>GenerateKeyPair\<close> returned, as it is: the field is nil when that pointer was nil.
\<close>

theorem C3_returned_record_fields:
  "fst (GeneratePreParams env oc) = Returned r e \<Longrightarrow>
     \<exists>c sgps sk x g0 g1 n h1 h2.
       resolveConcurrency env oc = Inr c \<and>
       GetRandomGermainPrimesConcurrent env (SafePrimeBitLen env) 2 c = Done sgps \<and>
       GenerateKeyPair env (PaillierModulusLen env) = Done (sk, x) \<and>
       1 < length sgps \<and> sgps ! 0 = Some g0 \<and> sgps ! 1 = Some g1 \<and>
       GenerateNTildei env (SafePrime g0, SafePrime g1) = Done (n, h1, h2, e) \<and>
       r = (if e = None
            then Some \<lparr>PaillierSK = sk, NTildei = n, H1i = h1, H2i = h2\<rparr>
            else None)"
proof -
  assume "fst (GeneratePreParams env oc) = Returned r e"
  then have "GeneratePreParams env oc = (Returned r e, snd (GeneratePreParams env oc))"
    by (simp add: prod_eq_iff)
  then show ?thesis
    unfolding GeneratePreParams_Returned_iff by blast
qed

theorem C3_witness:
  "fst (GeneratePreParams toy_env [2]) =
     Returned
       (Some \<lparr>PaillierSK = Some 77, NTildei = Some 253, H1i = Some 4, H2i = Some 16\<rparr>)
       None \<and>
   (\<exists>c sgps sk x g0 g1 n h1 h2.
      resolveConcurrency toy_env [2] = Inr c \<and>
      GetRandomGermainPrimesConcurrent toy_env (SafePrimeBitLen toy_env) 2 c = Done sgps \<and>
      GenerateKeyPair toy_env (PaillierModulusLen toy_env) = Done (sk, x) \<and>
      1 < length sgps \<and> sgps ! 0 = Some g0 \<and> sgps ! 1 = Some g1 \<and>
      GenerateNTildei toy_env (SafePrime g0, SafePrime g1) = Done (n, h1, h2, None) \<and>
      Some \<lparr>PaillierSK = Some (77::nat), NTildei = Some 253, H1i = Some 4, H2i = Some 16\<rparr> =
        Some \<lparr>PaillierSK = sk, NTildei = n, H1i = h1, H2i = h2\<rparr>)"
proof -
  have a: "fst (GeneratePreParams toy_env [2]) =
     Returned
       (Some \<lparr>PaillierSK = Some 77, NTildei = Some 253, H1i = Some 4, H2i = Some 16\<rparr>)
       None"
    by (simp add: toy_eval)
  from C3_returned_record_fields [OF a] a
  show ?thesis by simp
qed

subsection \<open>C4: how invalid configuration is signalled\<close>

text \<open>
  C4 says: invalid configuration, a wrong number of optional arguments included, is
  signalled as an ordinary error result and never by a panic.

  With two optional arguments the function panics (line 27), before anything is started.
\<close>

theorem C4_counterexample:
  "GeneratePreParams toy_env [1, 2] =
     (Panicked (PanicError
        (Error ''GeneratePreParams: expected 0 or 1 item in `optionalConcurrency`'')), [])"
  by (simp add: GeneratePreParams_def resolveConcurrency_def)

text \<open>
  C4 as amended: two or more optional arguments are signalled by a panic that carries the
  error "GeneratePreParams: expected 0 or 1 item in `optionalConcurrency`", raised
  before either generator is started. With zero or one argument nothing is signalled
  about the configuration, whatever the value: both generators are started, the
  safe-prime search with the number of CPUs or with the supplied value as it is; the
  function never panics with an error value of its own; it returns exactly when both
  generators and \<open>GenerateNTildei\<close> have delivered, with the error \<open>GenerateNTildei\<close>
  returned and no other; and it never returns exactly when a generator or
  \<open>GenerateNTildei\<close> never delivers (and no generator panics).
\<close>

theorem C4_wrong_count_panics_before_launch:
  "(2 \<le> length oc \<longrightarrow>
      GeneratePreParams env oc =
        (Panicked (PanicError
           (Error ''GeneratePreParams: expected 0 or 1 item in `optionalConcurrency`'')), [])) \<and>
   (length oc \<le> 1 \<longrightarrow>
      take 2 (snd (GeneratePreParams env oc)) =
        [GoGenerateKeyPair (PaillierModulusLen env),
         GoGetRandomGermainPrimesConcurrent (SafePrimeBitLen env) 2
           (case oc of [] \<Rightarrow> NumCPU env | c # _ \<Rightarrow> c)] \<and>
      (\<forall>err. fst (GeneratePreParams env oc) \<noteq> Panicked (PanicError err)) \<and>
      (\<forall>r e. fst (GeneratePreParams env oc) = Returned r e \<longleftrightarrow>
         (\<exists>sgps sk x g0 g1 n h1 h2.
            GetRandomGermainPrimesConcurrent env (SafePrimeBitLen env) 2
              (case oc of [] \<Rightarrow> NumCPU env | c # _ \<Rightarrow> c) = Done sgps \<and>
            GenerateKeyPair env (PaillierModulusLen env) = Done (sk, x) \<and>
            1 < length sgps \<and> sgps ! 0 = Some g0 \<and> sgps ! 1 = Some g1 \<and>
            GenerateNTildei env (SafePrime g0, SafePrime g1) = Done (n, h1, h2, e) \<and>
            r = (if e = None
                 then Some \<lparr>PaillierSK = sk, NTildei = n, H1i = h1, H2i = h2\<rparr>
                 else None))) \<and>
      (fst (GeneratePreParams env oc) = Blocked \<longleftrightarrow>
         (GetRandomGermainPrimesConcurrent env (SafePrimeBitLen env) 2
            (case oc of [] \<Rightarrow> NumCPU env | c # _ \<Rightarrow> c) \<noteq> Crash \<and>
          GenerateKeyPair env (PaillierModulusLen env) \<noteq> Crash \<and>
          (GetRandomGermainPrimesConcurrent env (SafePrimeBitLen env) 2
             (case oc of [] \<Rightarrow> NumCPU env | c # _ \<Rightarrow> c) = Hang \<or>
           GenerateKeyPair env (PaillierModulusLen env) = Hang)) \<or>
         (\<exists>sgps sk x g0 g1.
            GetRandomGermainPrimesConcurrent env (SafePrimeBitLen env) 2
              (case oc of [] \<Rightarrow> NumCPU env | c # _ \<Rightarrow> c) = Done sgps \<and>
            GenerateKeyPair env (PaillierModulusLen env) = Done (sk, x) \<and>
            1 < length sgps \<and> sgps ! 0 = Some g0 \<and> sgps ! 1 = Some g1 \<and>
            GenerateNTildei env (SafePrime g0, SafePrime g1) = Hang)))"
proof (intro conjI impI)
  assume "2 \<le> length oc"
  then show "GeneratePreParams env oc =
        (Panicked (PanicError
           (Error ''GeneratePreParams: expected 0 or 1 item in `optionalConcurrency`'')), [])"
    by (rule GeneratePreParams_wrong_count)
next
  assume "length oc \<le> 1"
  then have rc:
    "resolveConcurrency env oc = Inr (case oc of [] \<Rightarrow> NumCPU env | c # _ \<Rightarrow> c)"
    by (rule resolveConcurrency_short)
  from GeneratePreParams_trace [OF rc]
  show "take 2 (snd (GeneratePreParams env oc)) =
        [GoGenerateKeyPair (PaillierModulusLen env),
         GoGetRandomGermainPrimesConcurrent (SafePrimeBitLen env) 2
           (case oc of [] \<Rightarrow> NumCPU env | c # _ \<Rightarrow> c)]"
    by auto
  show "\<forall>err. fst (GeneratePreParams env oc) \<noteq> Panicked (PanicError err)"
  proof (intro allI notI)
    fix err
    assume "fst (GeneratePreParams env oc) = Panicked (PanicError err)"
    then show False
      unfolding GeneratePreParams_Panicked_iff [OF rc]
      by (auto dest: safePrimeAt_Inl)
  qed
  show "\<forall>r e. fst (GeneratePreParams env oc) = Returned r e \<longleftrightarrow>
         (\<exists>sgps sk x g0 g1 n h1 h2.
            GetRandomGermainPrimesConcurrent env (SafePrimeBitLen env) 2
              (case oc of [] \<Rightarrow> NumCPU env | c # _ \<Rightarrow> c) = Done sgps \<and>
            GenerateKeyPair env (PaillierModulusLen env) = Done (sk, x) \<and>
            1 < length sgps \<and> sgps ! 0 = Some g0 \<and> sgps ! 1 = Some g1 \<and>
            GenerateNTildei env (SafePrime g0, SafePrime g1) = Done (n, h1, h2, e) \<and>
            r = (if e = None
                 then Some \<lparr>PaillierSK = sk, NTildei = n, H1i = h1, H2i = h2\<rparr>
                 else None))"
    by (intro allI) (rule GeneratePreParams_Returned_resolved_iff [OF rc])
  show "fst (GeneratePreParams env oc) = Blocked \<longleftrightarrow>
         (GetRandomGermainPrimesConcurrent env (SafePrimeBitLen env) 2
            (case oc of [] \<Rightarrow> NumCPU env | c # _ \<Rightarrow> c) \<noteq> Crash \<and>
          GenerateKeyPair env (PaillierModulusLen env) \<noteq> Crash \<and>
          (GetRandomGermainPrimesConcurrent env (SafePrimeBitLen env) 2
             (case oc of [] \<Rightarrow> NumCPU env | c # _ \<Rightarrow> c) = Hang \<or>
           GenerateKeyPair env (PaillierModulusLen env) = Hang)) \<or>
         (\<exists>sgps sk x g0 g1.
            GetRandomGermainPrimesConcurrent env (SafePrimeBitLen env) 2
              (case oc of [] \<Rightarrow> NumCPU env | c # _ \<Rightarrow> c) = Done sgps \<and>
            GenerateKeyPair env (PaillierModulusLen env) = Done (sk, x) \<and>
            1 < length sgps \<and> sgps ! 0 = Some g0 \<and> sgps ! 1 = Some g1 \<and>
            GenerateNTildei env (SafePrime g0, SafePrime g1) = Hang)"
    by (rule GeneratePreParams_Blocked_iff [OF rc])
qed

theorem C4_witness:
  "2 \<le> length [7, 9 :: int] \<and>
   GeneratePreParams toy_env [7, 9] =
     (Panicked (PanicError
        (Error ''GeneratePreParams: expected 0 or 1 item in `optionalConcurrency`'')), []) \<and>
   length [- 1 :: int] \<le> 1 \<and>
   take 2 (snd (GeneratePreParams toy_env [- 1])) =
     [GoGenerateKeyPair 2048, GoGetRandomGermainPrimesConcurrent 1024 2 (- 1)] \<and>
   fst (GeneratePreParams toy_env [- 1]) =
     Returned
       (Some \<lparr>PaillierSK = Some 77, NTildei = Some 253, H1i = Some 4, H2i = Some 16\<rparr>) None \<and>
   GetRandomGermainPrimesConcurrent strict_search_env
     (SafePrimeBitLen strict_search_env) 2 (- 1) = Hang \<and>
   GenerateKeyPair strict_search_env (PaillierModulusLen strict_search_env) =
     Done (Some 77, None) \<and>
   fst (GeneratePreParams strict_search_env [- 1]) = Blocked"
proof -
  have l2: "2 \<le> length [7, 9 :: int]" and l1: "length [- 1 :: int] \<le> 1"
    by simp_all
  have ret: "fst (GeneratePreParams toy_env [- 1]) =
     Returned
       (Some \<lparr>PaillierSK = Some 77, NTildei = Some 253, H1i = Some 4, H2i = Some 16\<rparr>) None"
    by (simp add: toy_eval)
  have sg: "GetRandomGermainPrimesConcurrent strict_search_env
      (SafePrimeBitLen strict_search_env) 2 (- 1) = Hang"
    by (simp add: strict_search_env_def toy_env_def)
  have kp: "GenerateKeyPair strict_search_env (PaillierModulusLen strict_search_env) =
      Done (Some 77, None)"
    by (simp add: strict_search_env_def toy_env_def)
  from C4_wrong_count_panics_before_launch [of "[7, 9]" toy_env] l2
  have pan: "GeneratePreParams toy_env [7, 9] =
     (Panicked (PanicError
        (Error ''GeneratePreParams: expected 0 or 1 item in `optionalConcurrency`'')), [])"
    by blast
  from C4_wrong_count_panics_before_launch [of "[- 1]" toy_env] l1
  have "take 2 (snd (GeneratePreParams toy_env [- 1])) =
        [GoGenerateKeyPair (PaillierModulusLen toy_env),
         GoGetRandomGermainPrimesConcurrent (SafePrimeBitLen toy_env) 2
           (case [- 1] of [] \<Rightarrow> NumCPU toy_env | c # _ \<Rightarrow> c)]"
    by blast
  then have tr: "take 2 (snd (GeneratePreParams toy_env [- 1])) =
     [GoGenerateKeyPair 2048, GoGetRandomGermainPrimesConcurrent 1024 2 (- 1)]"
    by (simp add: toy_env_def)
  from C4_wrong_count_panics_before_launch [of "[- 1]" strict_search_env] l1
  have "fst (GeneratePreParams strict_search_env [- 1]) = Blocked \<longleftrightarrow>
         (GetRandomGermainPrimesConcurrent strict_search_env
            (SafePrimeBitLen strict_search_env) 2
            (case [- 1] of [] \<Rightarrow> NumCPU strict_search_env | c # _ \<Rightarrow> c) \<noteq> Crash \<and>
          GenerateKeyPair strict_search_env (PaillierModulusLen strict_search_env) \<noteq> Crash \<and>
          (GetRandomGermainPrimesConcurrent strict_search_env
             (SafePrimeBitLen strict_search_env) 2
             (case [- 1] of [] \<Rightarrow> NumCPU strict_search_env | c # _ \<Rightarrow> c) = Hang \<or>
           GenerateKeyPair strict_search_env (PaillierModulusLen strict_search_env) = Hang)) \<or>
         (\<exists>sgps sk x g0 g1.
            GetRandomGermainPrimesConcurrent strict_search_env
              (SafePrimeBitLen strict_search_env) 2
              (case [- 1] of [] \<Rightarrow> NumCPU strict_search_env | c # _ \<Rightarrow> c) = Done sgps \<and>
            GenerateKeyPair strict_search_env (PaillierModulusLen strict_search_env) =
              Done (sk, x) \<and>
            1 < length sgps \<and> sgps ! 0 = Some g0 \<and> sgps ! 1 = Some g1 \<and>
            GenerateNTildei strict_search_env (SafePrime g0, SafePrime g1) = Hang)"
    by blast
  with sg kp have blk: "fst (GeneratePreParams strict_search_env [- 1]) = Blocked"
    by simp
  from l2 pan l1 tr ret sg kp blk show ?thesis by blast
qed

subsection \<open>C5: NTilde comes from the two safe primes of the same run\<close>

text \<open>
  C5: in every run that returns, \<open>GenerateNTildei\<close> is called once, after both launches,
  on exactly the two values \<open>sgps[0].SafePrime()\<close> and \<open>sgps[1].SafePrime()\<close> of the slice
  that this run's safe-prime search delivered; a returned record holds in \<open>NTildei\<close> the
  first value of that call. So, for a derivation whose first value is the product of
  the two values it is handed, \<open>NTildei\<close> is the product of the two values that
  \<open>SafePrime()\<close> gives (the safe primes p), not of the values that \<open>Prime()\<close> gives (the
  Sophie Germain components q).
\<close>

theorem C5_NTildei_from_the_two_safe_primes:
  "GeneratePreParams env oc = (Returned r e, tr) \<Longrightarrow>
     \<exists>c sgps g0 g1 n h1 h2.
       resolveConcurrency env oc = Inr c \<and>
       GetRandomGermainPrimesConcurrent env (SafePrimeBitLen env) 2 c = Done sgps \<and>
       1 < length sgps \<and> sgps ! 0 = Some g0 \<and> sgps ! 1 = Some g1 \<and>
       tr = [GoGenerateKeyPair (PaillierModulusLen env),
             GoGetRandomGermainPrimesConcurrent (SafePrimeBitLen env) 2 c,
             CallGenerateNTildei (SafePrime g0) (SafePrime g1)] \<and>
       GenerateNTildei env (SafePrime g0, SafePrime g1) = Done (n, h1, h2, e) \<and>
       (\<forall>lp. r = Some lp \<longrightarrow>
          NTildei lp = n \<and>
          (\<forall>p1 p2. NTildeIsProduct env \<longrightarrow> SafePrime g0 = Some p1 \<longrightarrow>
             SafePrime g1 = Some p2 \<longrightarrow> NTildei lp = Some (p1 * p2)))"
proof -
  assume "GeneratePreParams env oc = (Returned r e, tr)"
  then obtain c sgps sk x g0 g1 n h1 h2 where
    rc: "resolveConcurrency env oc = Inr c" and
    sg: "GetRandomGermainPrimesConcurrent env (SafePrimeBitLen env) 2 c = Done sgps" and
    len: "1 < length sgps" and g0: "sgps ! 0 = Some g0" and g1: "sgps ! 1 = Some g1" and
    nt: "GenerateNTildei env (SafePrime g0, SafePrime g1) = Done (n, h1, h2, e)" and
    r: "r = (if e = None
             then Some \<lparr>PaillierSK = sk, NTildei = n, H1i = h1, H2i = h2\<rparr>
             else None)" and
    tr: "tr = [GoGenerateKeyPair (PaillierModulusLen env),
               GoGetRandomGermainPrimesConcurrent (SafePrimeBitLen env) 2 c,
               CallGenerateNTildei (SafePrime g0) (SafePrime g1)]"
    unfolding GeneratePreParams_Returned_iff by blast
  have fld: "\<forall>lp. r = Some lp \<longrightarrow>
          NTildei lp = n \<and>
          (\<forall>p1 p2. NTildeIsProduct env \<longrightarrow> SafePrime g0 = Some p1 \<longrightarrow>
             SafePrime g1 = Some p2 \<longrightarrow> NTildei lp = Some (p1 * p2))"
  proof (intro allI impI conjI)
    fix lp assume lp: "r = Some lp"
    with r have e: "e = None" and lpv: "lp = \<lparr>PaillierSK = sk, NTildei = n, H1i = h1, H2i = h2\<rparr>"
      by (auto split: if_splits)
    from lpv show n: "NTildei lp = n" by simp
    fix p1 p2
    assume prod: "NTildeIsProduct env" and p1: "SafePrime g0 = Some p1"
      and p2: "SafePrime g1 = Some p2"
    from nt e p1 p2 have "GenerateNTildei env (Some p1, Some p2) = Done (n, h1, h2, None)"
      by simp
    with prod have "n = Some (p1 * p2)"
      unfolding NTildeIsProduct_def by blast
    with n show "NTildei lp = Some (p1 * p2)" by simp
  qed
  from rc sg len g0 g1 tr nt fld show ?thesis by blast
qed

theorem C5_witness:
  "GeneratePreParams toy_env [] =
     (Returned
        (Some \<lparr>PaillierSK = Some 77, NTildei = Some 253, H1i = Some 4, H2i = Some 16\<rparr>)
        None,
      [GoGenerateKeyPair 2048,
       GoGetRandomGermainPrimesConcurrent 1024 2 4,
       CallGenerateNTildei (Some 11) (Some 23)]) \<and>
   NTildeIsProduct toy_env \<and>
   (\<exists>g0 g1.
       GetRandomGermainPrimesConcurrent toy_env (SafePrimeBitLen toy_env) 2 4 =
         Done [Some g0, Some g1] \<and>
       SafePrime g0 = Some 11 \<and> SafePrime g1 = Some 23 \<and>
       Prime g0 = Some 5 \<and> Prime g1 = Some 11 \<and>
       NTildei \<lparr>PaillierSK = Some (77::nat), NTildei = Some 253, H1i = Some 4, H2i = Some 16\<rparr> =
         Some (11 * 23))"
proof -
  let ?lp = "\<lparr>PaillierSK = Some (77::nat), NTildei = Some 253, H1i = Some 4, H2i = Some 16\<rparr>"
  let ?g0 = "\<lparr>germain_q = Some 5, germain_p = Some 11\<rparr>"
  let ?g1 = "\<lparr>germain_q = Some 11, germain_p = Some 23\<rparr>"
  have a: "GeneratePreParams toy_env [] =
     (Returned (Some ?lp) None,
      [GoGenerateKeyPair 2048,
       GoGetRandomGermainPrimesConcurrent 1024 2 4,
       CallGenerateNTildei (Some 11) (Some 23)])"
    by (simp add: toy_eval)
  have b: "NTildeIsProduct toy_env"
    by (simp add: NTildeIsProduct_def toy_env_def)
  have sg: "GetRandomGermainPrimesConcurrent toy_env (SafePrimeBitLen toy_env) 2 4 =
      Done [Some ?g0, Some ?g1]"
    by (simp add: toy_env_def)
  have v: "SafePrime ?g0 = Some 11 \<and> SafePrime ?g1 = Some 23 \<and>
      Prime ?g0 = Some 5 \<and> Prime ?g1 = Some 11"
    by (simp add: SafePrime_def Prime_def)
  from C5_NTildei_from_the_two_safe_primes [OF a]
  obtain c sgps g0 g1 where
    rc: "resolveConcurrency toy_env [] = Inr c" and
    sg': "GetRandomGermainPrimesConcurrent toy_env (SafePrimeBitLen toy_env) 2 c = Done sgps" and
    g0: "sgps ! 0 = Some g0" and g1: "sgps ! 1 = Some g1" and
    fld: "\<forall>lp. Some ?lp = Some lp \<longrightarrow>
          (\<forall>p1 p2. NTildeIsProduct toy_env \<longrightarrow> SafePrime g0 = Some p1 \<longrightarrow>
             SafePrime g1 = Some p2 \<longrightarrow> NTildei lp = Some (p1 * p2))"
    by blast
  from rc have c: "c = 4"
    by (simp add: resolveConcurrency_def toy_env_def)
  from sg sg' c have sgps: "sgps = [Some ?g0, Some ?g1]" by simp
  from g0 g1 sgps have g: "g0 = ?g0" "g1 = ?g1" by simp_all
  from fld b v g have "NTildei ?lp = Some (11 * 23)" by blast
  with a b sg v show ?thesis by blast
qed

subsection \<open>C6: the two tasks are joined, not cancelled\<close>

text \<open>
  C6 says: when one of the two tasks fails, the orchestrator cancels the other promptly
  and returns the first error without waiting for the sibling to finish.

  With a Paillier generator that fails at once and a safe-prime search that never
  finishes, the function does not return the Paillier failure: it stays blocked in the
  receive of line 55, both goroutines started and nothing else done.
\<close>

theorem C6_counterexample:
  "GeneratePreParams search_hanging_env [4] =
     (Blocked,
      [GoGenerateKeyPair 2048, GoGetRandomGermainPrimesConcurrent 1024 2 4])"
  by (simp add: toy_eval)

text \<open>
  C6 as amended: the orchestrator has no cancellation. Line 55 receives the result of
  the safe-prime search and the result of the Paillier generation unconditionally,
  before anything else: the function returns only in runs in which both tasks have
  delivered, and when one task never delivers and neither panics, the function never
  returns, whatever the other task delivered.
\<close>

theorem C6_returns_only_after_both_tasks:
  "(fst (GeneratePreParams env oc) = Returned r e \<longrightarrow>
      (\<exists>c sgps pai.
         resolveConcurrency env oc = Inr c \<and>
         GetRandomGermainPrimesConcurrent env (SafePrimeBitLen env) 2 c = Done sgps \<and>
         GenerateKeyPair env (PaillierModulusLen env) = Done pai)) \<and>
   (resolveConcurrency env oc = Inr c \<longrightarrow>
    GetRandomGermainPrimesConcurrent env (SafePrimeBitLen env) 2 c \<noteq> Crash \<longrightarrow>
    GenerateKeyPair env (PaillierModulusLen env) \<noteq> Crash \<longrightarrow>
    GetRandomGermainPrimesConcurrent env (SafePrimeBitLen env) 2 c = Hang \<or>
      GenerateKeyPair env (PaillierModulusLen env) = Hang \<longrightarrow>
    GeneratePreParams env oc =
      (Blocked,
       [GoGenerateKeyPair (PaillierModulusLen env),
        GoGetRandomGermainPrimesConcurrent (SafePrimeBitLen env) 2 c]))"
proof (intro conjI impI)
  assume "fst (GeneratePreParams env oc) = Returned r e"
  then have "GeneratePreParams env oc = (Returned r e, snd (GeneratePreParams env oc))"
    by (simp add: prod_eq_iff)
  then show "\<exists>c sgps pai.
         resolveConcurrency env oc = Inr c \<and>
         GetRandomGermainPrimesConcurrent env (SafePrimeBitLen env) 2 c = Done sgps \<and>
         GenerateKeyPair env (PaillierModulusLen env) = Done pai"
    unfolding GeneratePreParams_Returned_iff by blast
next
  assume rc: "resolveConcurrency env oc = Inr c"
    and "GetRandomGermainPrimesConcurrent env (SafePrimeBitLen env) 2 c \<noteq> Crash"
    and "GenerateKeyPair env (PaillierModulusLen env) \<noteq> Crash"
    and "GetRandomGermainPrimesConcurrent env (SafePrimeBitLen env) 2 c = Hang \<or>
      GenerateKeyPair env (PaillierModulusLen env) = Hang"
  then have "receiveBoth
           (GetRandomGermainPrimesConcurrent env (SafePrimeBitLen env) 2 c)
           (GenerateKeyPair env (PaillierModulusLen env)) = Hang"
    unfolding receiveBoth_Hang_iff by blast
  with rc show "GeneratePreParams env oc =
      (Blocked,
       [GoGenerateKeyPair (PaillierModulusLen env),
        GoGetRandomGermainPrimesConcurrent (SafePrimeBitLen env) 2 c])"
    by (rule GeneratePreParams_Hang)
qed

theorem C6_witness:
  "fst (GeneratePreParams paillier_failing_env [1]) =
     Returned
       (Some \<lparr>PaillierSK = None, NTildei = Some 253, H1i = Some 4, H2i = Some 16\<rparr>)
       None \<and>
   (\<exists>c sgps pai.
      resolveConcurrency paillier_failing_env [1] = Inr c \<and>
      GetRandomGermainPrimesConcurrent paillier_failing_env
        (SafePrimeBitLen paillier_failing_env) 2 c = Done sgps \<and>
      GenerateKeyPair paillier_failing_env (PaillierModulusLen paillier_failing_env) =
        Done pai) \<and>
   resolveConcurrency search_hanging_env [] = Inr 4 \<and>
   GetRandomGermainPrimesConcurrent search_hanging_env
     (SafePrimeBitLen search_hanging_env) 2 4 = Hang \<and>
   GenerateKeyPair search_hanging_env (PaillierModulusLen search_hanging_env) =
     Done (None, Some (Error ''paillier: no key pair found'')) \<and>
   GeneratePreParams search_hanging_env [] =
     (Blocked,
      [GoGenerateKeyPair 2048, GoGetRandomGermainPrimesConcurrent 1024 2 4])"
proof -
  have a: "fst (GeneratePreParams paillier_failing_env [1]) =
     Returned
       (Some \<lparr>PaillierSK = None, NTildei = Some 253, H1i = Some 4, H2i = Some 16\<rparr>)
       None"
    by (simp add: toy_eval)
  have rc: "resolveConcurrency search_hanging_env [] = Inr 4"
    by (simp add: toy_eval)
  have sg: "GetRandomGermainPrimesConcurrent search_hanging_env
     (SafePrimeBitLen search_hanging_env) 2 4 = Hang"
    by (simp add: toy_eval)
  have kp: "GenerateKeyPair search_hanging_env (PaillierModulusLen search_hanging_env) =
     Done (None, Some (Error ''paillier: no key pair found''))"
    by (simp add: toy_eval)
  have bits: "PaillierModulusLen search_hanging_env = 2048"
    "SafePrimeBitLen search_hanging_env = 1024"
    by (simp_all add: toy_eval)
  from C6_returns_only_after_both_tasks
      [of paillier_failing_env "[1]" _ _ 4] a
  have first: "\<exists>c sgps pai.
      resolveConcurrency paillier_failing_env [1] = Inr c \<and>
      GetRandomGermainPrimesConcurrent paillier_failing_env
        (SafePrimeBitLen paillier_failing_env) 2 c = Done sgps \<and>
      GenerateKeyPair paillier_failing_env (PaillierModulusLen paillier_failing_env) =
        Done pai"
    by blast
  from C6_returns_only_after_both_tasks
      [of search_hanging_env "[]" None None 4] rc sg kp
  have "GeneratePreParams search_hanging_env [] =
      (Blocked,
       [GoGenerateKeyPair (PaillierModulusLen search_hanging_env),
        GoGetRandomGermainPrimesConcurrent (SafePrimeBitLen search_hanging_env) 2 4])"
    by simp
  with bits have second: "GeneratePreParams search_hanging_env [] =
     (Blocked,
      [GoGenerateKeyPair 2048, GoGetRandomGermainPrimesConcurrent 1024 2 4])"
    by simp
  from a first rc sg kp second show ?thesis by blast
qed

subsection \<open>C7: how the two subtasks are launched\<close>

text \<open>
  C7 says: in every invocation the safe-prime search is launched with count 2 and bit
  length \<open>SafePrimeBitLen\<close>, and the Paillier generation with bit length
  \<open>PaillierModulusLen\<close>, as two concurrently executing tasks.

  Not in every invocation: with three optional arguments neither is launched. On a host
  where every collaborator panics as soon as it is called, the run ends in the panic of
  line 27, not in a collaborator's, and with no event.
\<close>

theorem C7_counterexample:
  "GeneratePreParams crashing_env [5, 6, 7] =
     (Panicked (PanicError
        (Error ''GeneratePreParams: expected 0 or 1 item in `optionalConcurrency`'')), [])"
  by (simp add: GeneratePreParams_def resolveConcurrency_def)

text \<open>
  C7 as amended: in every invocation with at most one optional argument, the safe-prime
  search is launched with count 2, bit length \<open>SafePrimeBitLen\<close> and the resolved
  concurrency, and the Paillier generation with bit length \<open>PaillierModulusLen\<close>, as two
  concurrently executing tasks. With two or more optional arguments neither is launched.

  As a statement about the calls: with at most one argument the two \<open>go\<close> events open the
  run and only the call of \<open>GenerateNTildei\<close> can follow; the run returns exactly when
  \<open>GetRandomGermainPrimesConcurrent(SafePrimeBitLen, 2, concurrency)\<close> and
  \<open>GenerateKeyPair(PaillierModulusLen)\<close> have both delivered (and the derivation
  returns); it blocks exactly when one of them (or the derivation) never delivers and
  neither panics; a panic of either ends the run whatever the other does, also when the
  other never finishes, so neither task waits for the other; and the run is the same for
  any other pair of collaborators that agree with these two at these arguments, so no
  other argument is ever passed. With two or more arguments the run is the same for any
  two collaborators at all, and has no event. No run has a launch event with other
  arguments.
\<close>

theorem C7_launch_arguments:
  "(length oc \<le> 1 \<longrightarrow>
      (\<exists>rest.
         snd (GeneratePreParams env oc) =
           [GoGenerateKeyPair (PaillierModulusLen env),
            GoGetRandomGermainPrimesConcurrent (SafePrimeBitLen env) 2
              (case oc of [] \<Rightarrow> NumCPU env | c # _ \<Rightarrow> c)] @ rest \<and>
         (rest = [] \<or> (\<exists>p1 p2. rest = [CallGenerateNTildei p1 p2]))) \<and>
      (\<forall>r e. fst (GeneratePreParams env oc) = Returned r e \<longleftrightarrow>
         (\<exists>sgps sk x g0 g1 n h1 h2.
            GetRandomGermainPrimesConcurrent env (SafePrimeBitLen env) 2
              (case oc of [] \<Rightarrow> NumCPU env | c # _ \<Rightarrow> c) = Done sgps \<and>
            GenerateKeyPair env (PaillierModulusLen env) = Done (sk, x) \<and>
            1 < length sgps \<and> sgps ! 0 = Some g0 \<and> sgps ! 1 = Some g1 \<and>
            GenerateNTildei env (SafePrime g0, SafePrime g1) = Done (n, h1, h2, e) \<and>
            r = (if e = None
                 then Some \<lparr>PaillierSK = sk, NTildei = n, H1i = h1, H2i = h2\<rparr>
                 else None))) \<and>
      (fst (GeneratePreParams env oc) = Blocked \<longleftrightarrow>
         (GetRandomGermainPrimesConcurrent env (SafePrimeBitLen env) 2
            (case oc of [] \<Rightarrow> NumCPU env | c # _ \<Rightarrow> c) \<noteq> Crash \<and>
          GenerateKeyPair env (PaillierModulusLen env) \<noteq> Crash \<and>
          (GetRandomGermainPrimesConcurrent env (SafePrimeBitLen env) 2
             (case oc of [] \<Rightarrow> NumCPU env | c # _ \<Rightarrow> c) = Hang \<or>
           GenerateKeyPair env (PaillierModulusLen env) = Hang)) \<or>
         (\<exists>sgps sk x g0 g1.
            GetRandomGermainPrimesConcurrent env (SafePrimeBitLen env) 2
              (case oc of [] \<Rightarrow> NumCPU env | c # _ \<Rightarrow> c) = Done sgps \<and>
            GenerateKeyPair env (PaillierModulusLen env) = Done (sk, x) \<and>
            1 < length sgps \<and> sgps ! 0 = Some g0 \<and> sgps ! 1 = Some g1 \<and>
            GenerateNTildei env (SafePrime g0, SafePrime g1) = Hang)) \<and>
      (GetRandomGermainPrimesConcurrent env (SafePrimeBitLen env) 2
         (case oc of [] \<Rightarrow> NumCPU env | c # _ \<Rightarrow> c) = Crash \<or>
       GenerateKeyPair env (PaillierModulusLen env) = Crash \<longrightarrow>
         GeneratePreParams env oc =
           (Panicked CalleePanic,
            [GoGenerateKeyPair (PaillierModulusLen env),
             GoGetRandomGermainPrimesConcurrent (SafePrimeBitLen env) 2
               (case oc of [] \<Rightarrow> NumCPU env | c # _ \<Rightarrow> c)])) \<and>
      (\<forall>kp sg.
         kp (PaillierModulusLen env) = GenerateKeyPair env (PaillierModulusLen env) \<longrightarrow>
         sg (SafePrimeBitLen env) 2 (case oc of [] \<Rightarrow> NumCPU env | c # _ \<Rightarrow> c) =
           GetRandomGermainPrimesConcurrent env (SafePrimeBitLen env) 2
             (case oc of [] \<Rightarrow> NumCPU env | c # _ \<Rightarrow> c) \<longrightarrow>
         GeneratePreParams
           (env\<lparr>GenerateKeyPair := kp, GetRandomGermainPrimesConcurrent := sg\<rparr>) oc =
           GeneratePreParams env oc)) \<and>
   (2 \<le> length oc \<longrightarrow>
      snd (GeneratePreParams env oc) = [] \<and>
      (\<forall>kp sg.
         GeneratePreParams
           (env\<lparr>GenerateKeyPair := kp, GetRandomGermainPrimesConcurrent := sg\<rparr>) oc =
           GeneratePreParams env oc)) \<and>
   (\<forall>n k c. GoGetRandomGermainPrimesConcurrent n k c \<in> set (snd (GeneratePreParams env oc))
      \<longrightarrow> n = SafePrimeBitLen env \<and> k = 2) \<and>
   (\<forall>n. GoGenerateKeyPair n \<in> set (snd (GeneratePreParams env oc))
      \<longrightarrow> n = PaillierModulusLen env)"
proof -
  let ?c = "case oc of [] \<Rightarrow> NumCPU env | c # _ \<Rightarrow> c"
  let ?S = "GetRandomGermainPrimesConcurrent env (SafePrimeBitLen env) 2 ?c"
  let ?K = "GenerateKeyPair env (PaillierModulusLen env)"
  let ?tr = "[GoGenerateKeyPair (PaillierModulusLen env),
              GoGetRandomGermainPrimesConcurrent (SafePrimeBitLen env) 2 ?c]"
  have short: "(\<exists>rest. snd (GeneratePreParams env oc) = ?tr @ rest \<and>
         (rest = [] \<or> (\<exists>p1 p2. rest = [CallGenerateNTildei p1 p2]))) \<and>
      (\<forall>r e. fst (GeneratePreParams env oc) = Returned r e \<longleftrightarrow>
         (\<exists>sgps sk x g0 g1 n h1 h2.
            ?S = Done sgps \<and> ?K = Done (sk, x) \<and>
            1 < length sgps \<and> sgps ! 0 = Some g0 \<and> sgps ! 1 = Some g1 \<and>
            GenerateNTildei env (SafePrime g0, SafePrime g1) = Done (n, h1, h2, e) \<and>
            r = (if e = None
                 then Some \<lparr>PaillierSK = sk, NTildei = n, H1i = h1, H2i = h2\<rparr>
                 else None))) \<and>
      (fst (GeneratePreParams env oc) = Blocked \<longleftrightarrow>
         (?S \<noteq> Crash \<and> ?K \<noteq> Crash \<and> (?S = Hang \<or> ?K = Hang)) \<or>
         (\<exists>sgps sk x g0 g1.
            ?S = Done sgps \<and> ?K = Done (sk, x) \<and>
            1 < length sgps \<and> sgps ! 0 = Some g0 \<and> sgps ! 1 = Some g1 \<and>
            GenerateNTildei env (SafePrime g0, SafePrime g1) = Hang)) \<and>
      (?S = Crash \<or> ?K = Crash \<longrightarrow> GeneratePreParams env oc = (Panicked CalleePanic, ?tr)) \<and>
      (\<forall>kp sg.
         kp (PaillierModulusLen env) = ?K \<longrightarrow>
         sg (SafePrimeBitLen env) 2 ?c = ?S \<longrightarrow>
         GeneratePreParams
           (env\<lparr>GenerateKeyPair := kp, GetRandomGermainPrimesConcurrent := sg\<rparr>) oc =
           GeneratePreParams env oc)"
    if len: "length oc \<le> 1"
  proof (intro conjI allI impI)
    from len have rc: "resolveConcurrency env oc = Inr ?c"
      by (rule resolveConcurrency_short)
    from rc show "\<exists>rest. snd (GeneratePreParams env oc) = ?tr @ rest \<and>
         (rest = [] \<or> (\<exists>p1 p2. rest = [CallGenerateNTildei p1 p2]))"
      by (rule GeneratePreParams_trace)
    show "fst (GeneratePreParams env oc) = Returned r e \<longleftrightarrow>
         (\<exists>sgps sk x g0 g1 n h1 h2.
            ?S = Done sgps \<and> ?K = Done (sk, x) \<and>
            1 < length sgps \<and> sgps ! 0 = Some g0 \<and> sgps ! 1 = Some g1 \<and>
            GenerateNTildei env (SafePrime g0, SafePrime g1) = Done (n, h1, h2, e) \<and>
            r = (if e = None
                 then Some \<lparr>PaillierSK = sk, NTildei = n, H1i = h1, H2i = h2\<rparr>
                 else None))" for r e
      by (rule GeneratePreParams_Returned_resolved_iff [OF rc])
    show "fst (GeneratePreParams env oc) = Blocked \<longleftrightarrow>
         (?S \<noteq> Crash \<and> ?K \<noteq> Crash \<and> (?S = Hang \<or> ?K = Hang)) \<or>
         (\<exists>sgps sk x g0 g1.
            ?S = Done sgps \<and> ?K = Done (sk, x) \<and>
            1 < length sgps \<and> sgps ! 0 = Some g0 \<and> sgps ! 1 = Some g1 \<and>
            GenerateNTildei env (SafePrime g0, SafePrime g1) = Hang)"
      by (rule GeneratePreParams_Blocked_iff [OF rc])
    show "GeneratePreParams env oc = (Panicked CalleePanic, ?tr)" if "?S = Crash \<or> ?K = Crash"
    proof -
      from that have "receiveBoth ?S ?K = Crash"
        unfolding receiveBoth_Crash_iff .
      then show ?thesis
        by (simp add: GeneratePreParams_resolved [OF rc])
    qed
    show "GeneratePreParams
           (env\<lparr>GenerateKeyPair := kp, GetRandomGermainPrimesConcurrent := sg\<rparr>) oc =
           GeneratePreParams env oc"
      if kp: "kp (PaillierModulusLen env) = ?K" and sg: "sg (SafePrimeBitLen env) 2 ?c = ?S"
      for kp sg
    proof -
      have "resolveConcurrency (env\<lparr>GenerateKeyPair := kp\<rparr>) oc =
          resolveConcurrency env oc"
        by (simp add: resolveConcurrency_def)
      with rc have rc': "resolveConcurrency (env\<lparr>GenerateKeyPair := kp\<rparr>) oc = Inr ?c"
        by simp
      have "GeneratePreParams
           ((env\<lparr>GenerateKeyPair := kp\<rparr>)\<lparr>GetRandomGermainPrimesConcurrent := sg\<rparr>) oc =
           GeneratePreParams (env\<lparr>GenerateKeyPair := kp\<rparr>) oc"
        by (rule GeneratePreParams_frame_search [OF rc']) (simp add: sg)
      also have "\<dots> = GeneratePreParams env oc"
        using kp by (rule GeneratePreParams_frame_GenerateKeyPair [of kp env oc])
      finally show ?thesis .
    qed
  qed
  have long: "snd (GeneratePreParams env oc) = [] \<and>
      (\<forall>kp sg.
         GeneratePreParams
           (env\<lparr>GenerateKeyPair := kp, GetRandomGermainPrimesConcurrent := sg\<rparr>) oc =
           GeneratePreParams env oc)"
    if len: "2 \<le> length oc"
    by (simp add: GeneratePreParams_wrong_count [OF len])
  have events:
    "(\<forall>n k c. GoGetRandomGermainPrimesConcurrent n k c \<in> set (snd (GeneratePreParams env oc))
        \<longrightarrow> n = SafePrimeBitLen env \<and> k = 2) \<and>
     (\<forall>n. GoGenerateKeyPair n \<in> set (snd (GeneratePreParams env oc))
        \<longrightarrow> n = PaillierModulusLen env)"
  proof (cases "length oc \<le> 1")
    case True
    from short [OF True] show ?thesis by auto
  next
    case False
    then have "2 \<le> length oc" by simp
    from long [OF this] show ?thesis by simp
  qed
  from short long events show ?thesis by blast
qed

text \<open>
  On the concrete environments: a run with the argument 3 that returns; the same run
  with collaborators that agree with the first at (2048) and (1024, 2, 3) only; a
  run in which the Paillier generation never finishes and the search panics, which ends
  in that panic; and a run with three arguments.
\<close>

theorem C7_witness:
  "length [3 :: int] \<le> 1 \<and>
   fst (GeneratePreParams toy_env [3]) =
     Returned
       (Some \<lparr>PaillierSK = Some 77, NTildei = Some 253, H1i = Some 4, H2i = Some 16\<rparr>) None \<and>
   (\<exists>rest.
      snd (GeneratePreParams toy_env [3]) =
        [GoGenerateKeyPair 2048, GoGetRandomGermainPrimesConcurrent 1024 2 3] @ rest \<and>
      (rest = [] \<or> (\<exists>p1 p2. rest = [CallGenerateNTildei p1 p2]))) \<and>
   GeneratePreParams
     (toy_env\<lparr>GenerateKeyPair := GenerateKeyPair strict_search_env,
              GetRandomGermainPrimesConcurrent :=
                GetRandomGermainPrimesConcurrent strict_search_env\<rparr>) [3] =
     GeneratePreParams toy_env [3] \<and>
   GeneratePreParams
     (toy_env\<lparr>GenerateKeyPair := (\<lambda>modulusBitLen. Hang),
              GetRandomGermainPrimesConcurrent := (\<lambda>bitLen numPrimes concurrency. Crash)\<rparr>) [] =
     (Panicked CalleePanic,
      [GoGenerateKeyPair 2048, GoGetRandomGermainPrimesConcurrent 1024 2 4]) \<and>
   2 \<le> length [5, 6, 7 :: int] \<and>
   snd (GeneratePreParams toy_env [5, 6, 7]) = []"
proof -
  let ?hc = "toy_env\<lparr>GenerateKeyPair := (\<lambda>modulusBitLen. Hang),
              GetRandomGermainPrimesConcurrent := (\<lambda>bitLen numPrimes concurrency. Crash)\<rparr>"
  have l1: "length [3 :: int] \<le> 1" and l0: "length ([] :: int list) \<le> 1"
    and l3: "2 \<le> length [5, 6, 7 :: int]"
    by simp_all
  have bits: "SafePrimeBitLen toy_env = 1024" "PaillierModulusLen toy_env = 2048"
    "NumCPU toy_env = 4"
    by (simp_all add: toy_env_def)
  have bits': "SafePrimeBitLen ?hc = 1024" "PaillierModulusLen ?hc = 2048" "NumCPU ?hc = 4"
    by (simp_all add: toy_env_def)
  have ret: "fst (GeneratePreParams toy_env [3]) =
     Returned
       (Some \<lparr>PaillierSK = Some 77, NTildei = Some 253, H1i = Some 4, H2i = Some 16\<rparr>) None"
    by (simp add: toy_eval)
  have kp: "GenerateKeyPair strict_search_env (PaillierModulusLen toy_env) =
      GenerateKeyPair toy_env (PaillierModulusLen toy_env)"
    by (simp add: strict_search_env_def toy_env_def)
  have sg: "GetRandomGermainPrimesConcurrent strict_search_env (SafePrimeBitLen toy_env) 2 3 =
      GetRandomGermainPrimesConcurrent toy_env (SafePrimeBitLen toy_env) 2 3"
    by (simp add: strict_search_env_def toy_env_def)
  note a = C7_launch_arguments [of "[3]" toy_env, THEN conjunct1, rule_format, OF l1]
  from a [THEN conjunct1] bits
  have tr: "\<exists>rest.
      snd (GeneratePreParams toy_env [3]) =
        [GoGenerateKeyPair 2048, GoGetRandomGermainPrimesConcurrent 1024 2 3] @ rest \<and>
      (rest = [] \<or> (\<exists>p1 p2. rest = [CallGenerateNTildei p1 p2]))"
    by simp
  from a [THEN conjunct2, THEN conjunct2, THEN conjunct2, THEN conjunct2, rule_format,
      of "GenerateKeyPair strict_search_env"
         "GetRandomGermainPrimesConcurrent strict_search_env"] kp sg
  have frame: "GeneratePreParams
     (toy_env\<lparr>GenerateKeyPair := GenerateKeyPair strict_search_env,
              GetRandomGermainPrimesConcurrent :=
                GetRandomGermainPrimesConcurrent strict_search_env\<rparr>) [3] =
     GeneratePreParams toy_env [3]"
    by simp
  note b = C7_launch_arguments [of "[]" ?hc, THEN conjunct1, rule_format, OF l0]
  from b [THEN conjunct2, THEN conjunct2, THEN conjunct2, THEN conjunct1] bits'
  have crash: "GeneratePreParams ?hc [] =
     (Panicked CalleePanic,
      [GoGenerateKeyPair 2048, GoGetRandomGermainPrimesConcurrent 1024 2 4])"
    by simp
  from C7_launch_arguments [of "[5, 6, 7]" toy_env, THEN conjunct2, THEN conjunct1,
      rule_format, OF l3]
  have none: "snd (GeneratePreParams toy_env [5, 6, 7]) = []"
    by blast
  from l1 ret tr frame crash l3 none show ?thesis by blast
qed

subsection \<open>C8: exactly one of the two return values is nil\<close>

text \<open>
  C8: whenever GeneratePreParams returns (no panic), a non-nil error comes with a nil
  \<open>LocalPreParams\<close> pointer and a nil error comes with a non-nil pointer.
\<close>

theorem C8_exactly_one_nil:
  "fst (GeneratePreParams env oc) = Returned r e \<Longrightarrow>
     (e \<noteq> None \<longrightarrow> r = None) \<and> (e = None \<longrightarrow> r \<noteq> None)"
proof -
  assume "fst (GeneratePreParams env oc) = Returned r e"
  then have "GeneratePreParams env oc = (Returned r e, snd (GeneratePreParams env oc))"
    by (simp add: prod_eq_iff)
  then show ?thesis
    unfolding GeneratePreParams_Returned_iff by auto
qed

theorem C8_witness:
  "fst (GeneratePreParams toy_env [3]) =
     Returned
       (Some \<lparr>PaillierSK = Some 77, NTildei = Some 253, H1i = Some 4, H2i = Some 16\<rparr>) None \<and>
   fst (GeneratePreParams ntilde_failing_env [3]) =
     Returned None (Some (Error ''ntilde: no generator found'')) \<and>
   (Some \<lparr>PaillierSK = Some (77::nat), NTildei = Some 253, H1i = Some 4, H2i = Some 16\<rparr>
      \<noteq> None) \<and>
   (Some (Error ''ntilde: no generator found'') \<noteq> None)"
proof -
  have a: "fst (GeneratePreParams toy_env [3]) =
     Returned
       (Some \<lparr>PaillierSK = Some 77, NTildei = Some 253, H1i = Some 4, H2i = Some 16\<rparr>) None"
    by (simp add: toy_eval)
  have b: "fst (GeneratePreParams ntilde_failing_env [3]) =
     Returned None (Some (Error ''ntilde: no generator found''))"
    by (simp add: toy_eval)
  from a b C8_exactly_one_nil [OF a] C8_exactly_one_nil [OF b]
  show ?thesis by simp
qed

subsection \<open>C9: when argument handling panics\<close>

text \<open>
  C9: with zero or one optional argument the argument handling of lines 24-32 does not
  panic, whatever the value (zero and negative values included); it panics exactly when
  two or more arguments are supplied. A run that ends in a panic with nothing started is
  a run whose argument handling panicked.
\<close>

theorem C9_argument_panic_iff_two_or_more:
  "((\<exists>pn. resolveConcurrency env oc = Inl pn) \<longleftrightarrow> 2 \<le> length oc) \<and>
   ((\<exists>pn. GeneratePreParams env oc = (Panicked pn, [])) \<longleftrightarrow> 2 \<le> length oc) \<and>
   (length oc \<le> 1 \<longrightarrow>
      resolveConcurrency env oc = Inr (case oc of [] \<Rightarrow> NumCPU env | c # _ \<Rightarrow> c))"
proof (intro conjI)
  show "(\<exists>pn. resolveConcurrency env oc = Inl pn) \<longleftrightarrow> 2 \<le> length oc"
    by (simp add: resolveConcurrency_Inl_iff)
  show "(\<exists>pn. GeneratePreParams env oc = (Panicked pn, [])) \<longleftrightarrow> 2 \<le> length oc"
  proof
    assume "\<exists>pn. GeneratePreParams env oc = (Panicked pn, [])"
    then obtain pn where p: "GeneratePreParams env oc = (Panicked pn, [])" by blast
    show "2 \<le> length oc"
    proof (rule ccontr)
      assume "\<not> 2 \<le> length oc"
      then have "length oc \<le> 1" by simp
      then have "resolveConcurrency env oc =
          Inr (case oc of [] \<Rightarrow> NumCPU env | c # _ \<Rightarrow> c)"
        by (rule resolveConcurrency_short)
      from GeneratePreParams_trace [OF this] p
      show False by auto
    qed
  next
    assume "2 \<le> length oc"
    from GeneratePreParams_wrong_count [OF this] show
      "\<exists>pn. GeneratePreParams env oc = (Panicked pn, [])" by blast
  qed
  show "length oc \<le> 1 \<longrightarrow>
      resolveConcurrency env oc = Inr (case oc of [] \<Rightarrow> NumCPU env | c # _ \<Rightarrow> c)"
    by (simp add: resolveConcurrency_short)
qed

theorem C9_witness:
  "length [0 :: int] \<le> 1 \<and> resolveConcurrency toy_env [0] = Inr 0 \<and>
   length [- 5 :: int] \<le> 1 \<and> resolveConcurrency toy_env [- 5] = Inr (- 5) \<and>
   length ([] :: int list) \<le> 1 \<and> resolveConcurrency toy_env [] = Inr 4 \<and>
   2 \<le> length [1, 2 :: int] \<and> (\<exists>pn. resolveConcurrency toy_env [1, 2] = Inl pn) \<and>
   (\<exists>pn. GeneratePreParams toy_env [1, 2] = (Panicked pn, []))"
  using C9_argument_panic_iff_two_or_more [of toy_env "[0]"]
    C9_argument_panic_iff_two_or_more [of toy_env "[- 5]"]
    C9_argument_panic_iff_two_or_more [of toy_env "[]"]
    C9_argument_panic_iff_two_or_more [of toy_env "[1, 2]"]
  by (simp add: toy_env_def)

subsection \<open>C10: the concurrency value does not reach the Paillier generator\<close>

text \<open>
  C10: the concurrency value, defaulted or supplied, goes to the safe-prime search only;
  the Paillier generator receives the constant \<open>PaillierModulusLen\<close> and nothing else.

  As a statement about the call: whatever the optional arguments and the number of CPUs,
  the run is the same for any other generator that agrees with \<open>GenerateKeyPair\<close> at
  the argument \<open>PaillierModulusLen\<close>, so the generator is never consulted at an argument
  that depends on the concurrency. With at most one optional argument it is consulted
  at \<open>PaillierModulusLen\<close>: its panic there is the run's panic, and the key of a returned
  record is the key it delivered there. Two runs that differ only in the concurrency (in
  the optional argument, or in the number of CPUs the host reports) start the generator
  once each, with the same single argument.
\<close>

theorem C10_paillier_launch_independent_of_concurrency:
  "(kp (PaillierModulusLen env) = GenerateKeyPair env (PaillierModulusLen env) \<longrightarrow>
      GeneratePreParams (env\<lparr>GenerateKeyPair := kp\<rparr>) oc = GeneratePreParams env oc) \<and>
   (length oc \<le> 1 \<longrightarrow>
      (GenerateKeyPair env (PaillierModulusLen env) = Crash \<longrightarrow>
         fst (GeneratePreParams env oc) = Panicked CalleePanic) \<and>
      (\<forall>lp e. fst (GeneratePreParams env oc) = Returned (Some lp) e \<longrightarrow>
         (\<exists>x. GenerateKeyPair env (PaillierModulusLen env) = Done (PaillierSK lp, x)))) \<and>
   (length oc1 \<le> 1 \<longrightarrow> length oc2 \<le> 1 \<longrightarrow>
      paillierLaunches (snd (GeneratePreParams (env\<lparr>NumCPU := n1\<rparr>) oc1)) =
        paillierLaunches (snd (GeneratePreParams (env\<lparr>NumCPU := n2\<rparr>) oc2)) \<and>
      paillierLaunches (snd (GeneratePreParams (env\<lparr>NumCPU := n1\<rparr>) oc1)) =
        [PaillierModulusLen env])"
proof (intro conjI impI allI)
  assume "kp (PaillierModulusLen env) = GenerateKeyPair env (PaillierModulusLen env)"
  then show "GeneratePreParams (env\<lparr>GenerateKeyPair := kp\<rparr>) oc = GeneratePreParams env oc"
    by (rule GeneratePreParams_frame_GenerateKeyPair [of kp env oc])
next
  assume len: "length oc \<le> 1"
    and crash: "GenerateKeyPair env (PaillierModulusLen env) = Crash"
  from len
  have rc: "resolveConcurrency env oc = Inr (case oc of [] \<Rightarrow> NumCPU env | c # _ \<Rightarrow> c)"
    by (rule resolveConcurrency_short)
  from crash show "fst (GeneratePreParams env oc) = Panicked CalleePanic"
    unfolding GeneratePreParams_Panicked_iff [OF rc] by simp
next
  fix lp e
  assume len: "length oc \<le> 1"
    and ret: "fst (GeneratePreParams env oc) = Returned (Some lp) e"
  from len
  have rc: "resolveConcurrency env oc = Inr (case oc of [] \<Rightarrow> NumCPU env | c # _ \<Rightarrow> c)"
    by (rule resolveConcurrency_short)
  from ret show "\<exists>x. GenerateKeyPair env (PaillierModulusLen env) = Done (PaillierSK lp, x)"
    unfolding GeneratePreParams_Returned_resolved_iff [OF rc]
    by (auto split: if_splits)
next
  have one: "paillierLaunches (snd (GeneratePreParams (env\<lparr>NumCPU := k\<rparr>) oc)) =
      [PaillierModulusLen env]" if "length oc \<le> 1" for k oc
  proof -
    from that
    have "resolveConcurrency (env\<lparr>NumCPU := k\<rparr>) oc =
        Inr (case oc of [] \<Rightarrow> NumCPU (env\<lparr>NumCPU := k\<rparr>) | c # _ \<Rightarrow> c)"
      by (rule resolveConcurrency_short)
    from GeneratePreParams_trace [OF this] show ?thesis by auto
  qed
  assume l1: "length oc1 \<le> 1" and l2: "length oc2 \<le> 1"
  then show "paillierLaunches (snd (GeneratePreParams (env\<lparr>NumCPU := n1\<rparr>) oc1)) =
        paillierLaunches (snd (GeneratePreParams (env\<lparr>NumCPU := n2\<rparr>) oc2))"
    by (simp add: one)
  from l1 show "paillierLaunches (snd (GeneratePreParams (env\<lparr>NumCPU := n1\<rparr>) oc1)) =
        [PaillierModulusLen env]"
    by (rule one)
qed

text \<open>
  On the concrete environment, with a second generator that delivers the same key at
  2048 and panics at every other argument: the runs with concurrency 7 and 8 are the
  runs of the first generator, and both return its key.
\<close>

theorem C10_witness:
  "GenerateKeyPair strict_search_env (PaillierModulusLen toy_env) =
     GenerateKeyPair toy_env (PaillierModulusLen toy_env) \<and>
   GenerateKeyPair strict_search_env 7 = Crash \<and>
   GenerateKeyPair strict_search_env 8 = Crash \<and>
   GeneratePreParams (toy_env\<lparr>GenerateKeyPair := GenerateKeyPair strict_search_env\<rparr>) [7] =
     GeneratePreParams toy_env [7] \<and>
   GeneratePreParams (toy_env\<lparr>GenerateKeyPair := GenerateKeyPair strict_search_env\<rparr>) [8] =
     GeneratePreParams toy_env [8] \<and>
   length [7 :: int] \<le> 1 \<and> length [8 :: int] \<le> 1 \<and>
   fst (GeneratePreParams toy_env [7]) =
     Returned
       (Some \<lparr>PaillierSK = Some 77, NTildei = Some 253, H1i = Some 4, H2i = Some 16\<rparr>) None \<and>
   (\<exists>x. GenerateKeyPair toy_env (PaillierModulusLen toy_env) = Done (Some 77, x)) \<and>
   paillierLaunches (snd (GeneratePreParams (toy_env\<lparr>NumCPU := 2\<rparr>) [7])) =
     paillierLaunches (snd (GeneratePreParams (toy_env\<lparr>NumCPU := 16\<rparr>) [8])) \<and>
   paillierLaunches (snd (GeneratePreParams (toy_env\<lparr>NumCPU := 2\<rparr>) [7])) = [2048]"
proof -
  have kp: "GenerateKeyPair strict_search_env (PaillierModulusLen toy_env) =
     GenerateKeyPair toy_env (PaillierModulusLen toy_env)"
    by (simp add: strict_search_env_def toy_env_def)
  have c7: "GenerateKeyPair strict_search_env 7 = Crash"
    and c8: "GenerateKeyPair strict_search_env 8 = Crash"
    by (simp_all add: strict_search_env_def toy_env_def)
  have l7: "length [7 :: int] \<le> 1" and l8: "length [8 :: int] \<le> 1" by simp_all
  have bits: "PaillierModulusLen toy_env = 2048"
    by (simp add: toy_env_def)
  have ret: "fst (GeneratePreParams toy_env [7]) =
     Returned
       (Some \<lparr>PaillierSK = Some 77, NTildei = Some 253, H1i = Some 4, H2i = Some 16\<rparr>) None"
    by (simp add: toy_eval)
  note t7 = C10_paillier_launch_independent_of_concurrency
    [where kp = "GenerateKeyPair strict_search_env" and env = toy_env and oc = "[7]"
       and ?oc1.0 = "[7]" and ?oc2.0 = "[8]" and ?n1.0 = 2 and ?n2.0 = 16]
  note t8 = C10_paillier_launch_independent_of_concurrency
    [where kp = "GenerateKeyPair strict_search_env" and env = toy_env and oc = "[8]"
       and ?oc1.0 = "[7]" and ?oc2.0 = "[8]" and ?n1.0 = 2 and ?n2.0 = 16]
  from t7 [THEN conjunct1, rule_format, OF kp]
  have f7: "GeneratePreParams (toy_env\<lparr>GenerateKeyPair := GenerateKeyPair strict_search_env\<rparr>)
      [7] = GeneratePreParams toy_env [7]" .
  from t8 [THEN conjunct1, rule_format, OF kp]
  have f8: "GeneratePreParams (toy_env\<lparr>GenerateKeyPair := GenerateKeyPair strict_search_env\<rparr>)
      [8] = GeneratePreParams toy_env [8]" .
  from t7 [THEN conjunct2, THEN conjunct1, rule_format, OF l7, THEN conjunct2,
      rule_format, OF ret]
  have key: "\<exists>x. GenerateKeyPair toy_env (PaillierModulusLen toy_env) = Done (Some 77, x)"
    by simp
  from t7 [THEN conjunct2, THEN conjunct2, rule_format, OF l7 l8] bits
  have launches:
    "paillierLaunches (snd (GeneratePreParams (toy_env\<lparr>NumCPU := 2\<rparr>) [7])) =
       paillierLaunches (snd (GeneratePreParams (toy_env\<lparr>NumCPU := 16\<rparr>) [8])) \<and>
     paillierLaunches (snd (GeneratePreParams (toy_env\<lparr>NumCPU := 2\<rparr>) [7])) = [2048]"
    by auto
  from kp c7 c8 f7 f8 l7 l8 ret key launches show ?thesis by blast
qed

end
